theory Spec2Isabelle
  imports Main "HOL-Library.Word" "HOL-Library.Signed_Division"
begin

unbundle bit_operations_syntax

section \<open>Machine types and register map\<close>

text \<open>
  The driver talks to the chip through an 8-bit register map (\<open>reg_bits = 8\<close>,
  \<open>val_bits = 8\<close>, \<open>max_register = 0x5F\<close>). Register values are \<open>u8\<close>; the C type
  \<open>unsigned int\<close> is \<open>u32\<close>; the C type \<open>int\<close> of the fields of \<open>struct rtc_time\<close> is
  modelled by \<open>int\<close>, with every conversion to and from \<open>unsigned\<close> written out
  (\<open>word_of_int\<close>, \<open>sint\<close>). Register addresses are natural numbers.
\<close>

type_synonym u8 = "8 word"
type_synonym u16 = "16 word"
type_synonym u32 = "32 word"

definition MAX31335_STATUS1 :: nat where "MAX31335_STATUS1 = 0x00"
definition MAX31335_INT_EN :: nat where "MAX31335_INT_EN = 0x01"
definition MAX31335_RTC_CONFIG2 :: nat where "MAX31335_RTC_CONFIG2 = 0x06"
definition MAX31335_SECONDS :: nat where "MAX31335_SECONDS = 0x0A"
definition MAX31335_MINUTES :: nat where "MAX31335_MINUTES = 0x0B"
definition MAX31335_HOURS :: nat where "MAX31335_HOURS = 0x0C"
definition MAX31335_DAY :: nat where "MAX31335_DAY = 0x0D"
definition MAX31335_DATE :: nat where "MAX31335_DATE = 0x0E"
definition MAX31335_MONTH :: nat where "MAX31335_MONTH = 0x0F"
definition MAX31335_ALM1_SEC :: nat where "MAX31335_ALM1_SEC = 0x11"
definition MAX31335_ALM1_YEAR :: nat where "MAX31335_ALM1_YEAR = 0x16"
definition MAX31335_TRICKLE_REG :: nat where "MAX31335_TRICKLE_REG = 0x1D"
definition MAX31335_AGING_OFFSET :: nat where "MAX31335_AGING_OFFSET = 0x1E"
definition MAX31335_TEMP_DATA_MSB :: nat where "MAX31335_TEMP_DATA_MSB = 0x35"
definition MAX31335_TEMP_DATA_LSB :: nat where "MAX31335_TEMP_DATA_LSB = 0x36"

text \<open>
  Modelled from the spec: the macro \<open>MAX31335_TIME_SIZE\<close> is used by
  \<open>max31335_volatile_reg\<close> and defined nowhere in the sources. The spec gives the
  time-keeping block as the 7 bytes read in one bulk transaction at the seconds base
  register.
\<close>

definition MAX31335_TIME_SIZE :: nat where "MAX31335_TIME_SIZE = 7"

text \<open>\<open>BIT(n)\<close> and \<open>GENMASK(h, l)\<close> of \<open>linux/bits.h\<close>.\<close>

definition BIT :: "nat \<Rightarrow> 'a::len word" where
  "BIT n = push_bit n 1"

definition GENMASK :: "nat \<Rightarrow> nat \<Rightarrow> 'a::len word" where
  "GENMASK h l = mask (Suc h) AND NOT (mask l)"

definition MAX31335_STATUS1_A1F :: "'a::len word" where "MAX31335_STATUS1_A1F = BIT 0"
definition MAX31335_INT_EN1_A1IE :: "'a::len word" where "MAX31335_INT_EN1_A1IE = BIT 0"
definition MAX31335_TRICKLE :: "'a::len word" where "MAX31335_TRICKLE = GENMASK 3 1"
definition MAX31335_EN_TRICKLE :: "'a::len word" where "MAX31335_EN_TRICKLE = BIT 0"
definition MAX31335_HRS_F_AM_PM :: "'a::len word" where "MAX31335_HRS_F_AM_PM = BIT 5"
definition MAX31335_HRS_F_12_24 :: "'a::len word" where "MAX31335_HRS_F_12_24 = BIT 6"
definition MAX31335_MONTH_CENTURY :: "'a::len word" where "MAX31335_MONTH_CENTURY = BIT 7"

text \<open>
  \<open>FIELD_GET\<close> and \<open>FIELD_PREP\<close> of \<open>linux/bitfield.h\<close>: the shift is the index of the
  lowest set bit of the mask (\<open>__bf_shf\<close>, that is \<open>__builtin_ffsll(mask) - 1\<close>). The
  macros refuse a zero mask at compile time; \<open>ctz 0 = 0\<close> here is never used.
\<close>

fun ctz :: "nat \<Rightarrow> nat" where
  "ctz n = (if n = 0 \<or> odd n then 0 else Suc (ctz (n div 2)))"

declare ctz.simps [simp del]

definition bf_shf :: "'a::len word \<Rightarrow> nat" where
  "bf_shf m = ctz (unat m)"

definition FIELD_GET :: "'a::len word \<Rightarrow> 'a word \<Rightarrow> 'a word" where
  "FIELD_GET m reg = drop_bit (bf_shf m) (reg AND m)"

definition FIELD_PREP :: "'a::len word \<Rightarrow> 'a word \<Rightarrow> 'a word" where
  "FIELD_PREP m val = push_bit (bf_shf m) val AND m"

section \<open>BCD codec\<close>

text \<open>
  \<open>linux/bcd.h\<close>: \<open>unsigned _bcd2bin(unsigned char val)\<close> returns
  \<open>(val & 0x0f) + (val >> 4) * 10\<close> and \<open>unsigned char _bin2bcd(unsigned val)\<close> returns
  \<open>((val / 10) << 4) + val % 10\<close>, truncated to a byte.
\<close>

definition bcd2bin :: "u8 \<Rightarrow> u32" where
  "bcd2bin val = ucast (val AND 0x0f) + ucast (drop_bit 4 val) * 10"

definition bin2bcd :: "u32 \<Rightarrow> u8" where
  "bin2bcd val = ucast (push_bit 4 (val div 10) + val mod 10)"

section \<open>The register-access collaborator\<close>

text \<open>
  The device context holds the chip's registers, the outcomes of the bus transactions
  still to come (\<open>script\<close>: one return code per transaction, \<open>0\<close> for success, a negative
  errno otherwise; an exhausted script means success) and the trace of everything the
  driver did that is visible outside it: bus transactions, lock operations, events sent
  to the RTC framework and warnings logged.
\<close>

datatype event =
    Lock
  | Unlock
  | RegRead nat
  | RegWrite nat u32
  | BulkRead nat nat
  | BulkWrite nat "u8 list"
  | UpdateBits nat u32 u32
  | RtcUpdateIrq nat u32
  | DevWarn string

record max31335_data =
  regs :: "nat \<Rightarrow> u8"
  script :: "int list"
  trace :: "event list"

definition bus_ret :: "max31335_data \<Rightarrow> int" where
  "bus_ret s = (case script s of [] \<Rightarrow> 0 | r # _ \<Rightarrow> r)"

definition emit :: "event \<Rightarrow> max31335_data \<Rightarrow> max31335_data" where
  "emit e s = s\<lparr>trace := trace s @ [e]\<rparr>"

definition bus_next :: "event \<Rightarrow> max31335_data \<Rightarrow> max31335_data" where
  "bus_next e s = s\<lparr>script := tl (script s), trace := trace s @ [e]\<rparr>"

text \<open>
  \<open>regmap_read\<close>: the value is stored through the pointer only on success, so the
  result is either the error code or the register byte widened to \<open>unsigned int\<close>.
\<close>

definition regmap_read :: "nat \<Rightarrow> max31335_data \<Rightarrow> (int + u32) \<times> max31335_data" where
  "regmap_read reg s =
     (if bus_ret s \<noteq> 0 then (Inl (bus_ret s), bus_next (RegRead reg) s)
      else (Inr (ucast (regs s reg)), bus_next (RegRead reg) s))"

text \<open>
  \<open>regmap_write\<close> takes an \<open>unsigned int\<close>; with \<open>val_bits = 8\<close> on a raw I2C bus the
  value is formatted into one byte (\<open>regmap_format_8\<close>), which keeps its low 8 bits.
\<close>

definition regmap_write :: "nat \<Rightarrow> u32 \<Rightarrow> max31335_data \<Rightarrow> int \<times> max31335_data" where
  "regmap_write reg val s =
     (if bus_ret s \<noteq> 0 then (bus_ret s, bus_next (RegWrite reg val) s)
      else (0, (bus_next (RegWrite reg val) s)\<lparr>regs := (regs s)(reg := ucast val)\<rparr>))"

definition regmap_bulk_read ::
  "nat \<Rightarrow> nat \<Rightarrow> max31335_data \<Rightarrow> (int + u8 list) \<times> max31335_data" where
  "regmap_bulk_read reg n s =
     (if bus_ret s \<noteq> 0 then (Inl (bus_ret s), bus_next (BulkRead reg n) s)
      else (Inr (map (regs s) [reg..<reg + n]), bus_next (BulkRead reg n) s))"

definition regmap_bulk_write ::
  "nat \<Rightarrow> u8 list \<Rightarrow> max31335_data \<Rightarrow> int \<times> max31335_data" where
  "regmap_bulk_write reg vals s =
     (if bus_ret s \<noteq> 0 then (bus_ret s, bus_next (BulkWrite reg vals) s)
      else (0, (bus_next (BulkWrite reg vals) s)
                 \<lparr>regs := (\<lambda>a. if reg \<le> a \<and> a < reg + length vals
                                 then vals ! (a - reg) else regs s a)\<rparr>))"

text \<open>
  \<open>regmap_update_bits\<close>: read-modify-write of one register under a mask, one outcome
  for the whole sequence.
\<close>

definition regmap_update_bits ::
  "nat \<Rightarrow> u32 \<Rightarrow> u32 \<Rightarrow> max31335_data \<Rightarrow> int \<times> max31335_data" where
  "regmap_update_bits reg m val s =
     (if bus_ret s \<noteq> 0 then (bus_ret s, bus_next (UpdateBits reg m val) s)
      else (0, (bus_next (UpdateBits reg m val) s)
                 \<lparr>regs := (regs s)
                    (reg := ucast ((ucast (regs s reg) AND NOT m) OR (val AND m)))\<rparr>))"

text \<open>
  For examples: a chip whose registers are all zero, behind a bus on which every
  transaction succeeds, with nothing traced yet.
\<close>

definition zero_regs :: "nat \<Rightarrow> u8" where
  "zero_regs a = 0"

definition idle_dev :: max31335_data where
  "idle_dev = \<lparr>regs = zero_regs, script = [], trace = []\<rparr>"

section \<open>Time translation\<close>

text \<open>\<open>struct rtc_time\<close>: \<open>tm_mon\<close> counts from 0, \<open>tm_year\<close> from 1900.\<close>

record rtc_time =
  tm_sec :: int
  tm_min :: int
  tm_hour :: int
  tm_mday :: int
  tm_mon :: int
  tm_year :: int
  tm_wday :: int
  tm_yday :: int
  tm_isdst :: int

definition max31335_get_hour :: "u8 \<Rightarrow> int" where
  "max31335_get_hour hour_reg =
     (if FIELD_GET MAX31335_HRS_F_12_24 hour_reg = 0
      then sint (bcd2bin (hour_reg AND 0x3f))
      else
        (let hour = sint (bcd2bin (hour_reg AND 0x1f));
             hour = (if hour = 12 then 0 else hour);
             hour = (if FIELD_GET MAX31335_HRS_F_AM_PM hour_reg \<noteq> 0
                     then hour + 12 else hour)
         in hour))"

text \<open>
  The decoding of the 7 bytes read at \<open>MAX31335_SECONDS\<close> into the caller's struct;
  \<open>tm_yday\<close> and \<open>tm_isdst\<close> are not written.
\<close>

definition decode_time :: "u8 list \<Rightarrow> rtc_time \<Rightarrow> rtc_time" where
  "decode_time date tm =
     (let tm = tm\<lparr>tm_sec := sint (bcd2bin (date ! 0 AND 0x7f))\<rparr>;
          tm = tm\<lparr>tm_min := sint (bcd2bin (date ! 1 AND 0x7f))\<rparr>;
          tm = tm\<lparr>tm_hour := max31335_get_hour (date ! 2)\<rparr>;
          tm = tm\<lparr>tm_wday := sint (bcd2bin (date ! 3 AND 0x7) - 1)\<rparr>;
          tm = tm\<lparr>tm_mday := sint (bcd2bin (date ! 4 AND 0x3f))\<rparr>;
          tm = tm\<lparr>tm_mon := sint (bcd2bin (date ! 5 AND 0x1f) - 1)\<rparr>;
          tm = tm\<lparr>tm_year := sint (bcd2bin (date ! 6) + 100)\<rparr>
      in if FIELD_GET MAX31335_MONTH_CENTURY (date ! 5) \<noteq> 0
         then tm\<lparr>tm_year := tm_year tm + 100\<rparr> else tm)"

definition max31335_read_time ::
  "rtc_time \<Rightarrow> max31335_data \<Rightarrow> int \<times> rtc_time \<times> max31335_data" where
  "max31335_read_time tm s =
     (case regmap_bulk_read MAX31335_SECONDS 7 s of
        (Inl ret, s') \<Rightarrow> (ret, tm, s')
      | (Inr date, s') \<Rightarrow> (0, decode_time date tm, s'))"

text \<open>The 7 bytes \<open>max31335_set_time\<close> builds, in register order.\<close>

definition encode_time :: "rtc_time \<Rightarrow> u8 list" where
  "encode_time tm =
     (let date = [bin2bcd (word_of_int (tm_sec tm)),
                  bin2bcd (word_of_int (tm_min tm)),
                  bin2bcd (word_of_int (tm_hour tm)),
                  bin2bcd (word_of_int (tm_wday tm + 1)),
                  bin2bcd (word_of_int (tm_mday tm)),
                  bin2bcd (word_of_int (tm_mon tm + 1)),
                  bin2bcd (word_of_int (tm_year tm smod 100))]
      in if tm_year tm \<ge> 200
         then date[5 := date ! 5 OR FIELD_PREP MAX31335_MONTH_CENTURY 1] else date)"

definition max31335_set_time :: "rtc_time \<Rightarrow> max31335_data \<Rightarrow> int \<times> max31335_data" where
  "max31335_set_time tm s = regmap_bulk_write MAX31335_SECONDS (encode_time tm) s"

text \<open>
  The times of the supported range, field by field: any second of any day from
  2000-01-01 to 2199-12-31 satisfies this (it does not check the length of the month,
  so it also admits day 31 of every month).
\<close>

definition rtc_time_in_range :: "rtc_time \<Rightarrow> bool" where
  "rtc_time_in_range tm \<longleftrightarrow>
     0 \<le> tm_sec tm \<and> tm_sec tm \<le> 59 \<and>
     0 \<le> tm_min tm \<and> tm_min tm \<le> 59 \<and>
     0 \<le> tm_hour tm \<and> tm_hour tm \<le> 23 \<and>
     0 \<le> tm_wday tm \<and> tm_wday tm \<le> 6 \<and>
     1 \<le> tm_mday tm \<and> tm_mday tm \<le> 31 \<and>
     0 \<le> tm_mon tm \<and> tm_mon tm \<le> 11 \<and>
     100 \<le> tm_year tm \<and> tm_year tm \<le> 299"

text \<open>
  The seven fields the driver transports, copied from \<open>tm\<close> into \<open>tm0\<close>; the other
  fields of \<open>tm0\<close> stay.
\<close>

definition with_civil_fields :: "rtc_time \<Rightarrow> rtc_time \<Rightarrow> rtc_time" where
  "with_civil_fields tm tm0 =
     tm0\<lparr>tm_sec := tm_sec tm, tm_min := tm_min tm, tm_hour := tm_hour tm,
         tm_mday := tm_mday tm, tm_mon := tm_mon tm, tm_year := tm_year tm,
         tm_wday := tm_wday tm\<rparr>"

text \<open>
  \<open>max31335_get_time\<close> of the earlier draft of the driver (\<open>rtc-max31335.c\<close>): no
  12-hour mode, no century bit, weekday stored as it is.
\<close>

definition max31335_get_time ::
  "rtc_time \<Rightarrow> max31335_data \<Rightarrow> int \<times> rtc_time \<times> max31335_data" where
  "max31335_get_time tm s =
     (case regmap_bulk_read MAX31335_SECONDS 7 s of
        (Inl ret, s') \<Rightarrow> (ret, tm, s')
      | (Inr date, s') \<Rightarrow>
          (0, tm\<lparr>tm_sec := sint (bcd2bin (date ! 0 AND 0x7f)),
                 tm_min := sint (bcd2bin (date ! 1 AND 0x7f)),
                 tm_hour := sint (bcd2bin (date ! 2 AND 0x3f)),
                 tm_wday := sint (ucast (date ! 3 AND 0x7) :: u32),
                 tm_mday := sint (bcd2bin (date ! 4 AND 0x3f)),
                 tm_mon := sint (bcd2bin (date ! 5 AND 0x1f) - 1),
                 tm_year := sint (bcd2bin (date ! 6) + 100)\<rparr>, s'))"

section \<open>Offset control\<close>

text \<open>
  \<open>max31335_read_offset\<close> reads into a \<open>u32\<close> and assigns it to the caller's \<open>long\<close>:
  a zero extension. \<open>max31335_set_offset\<close> passes the \<open>long\<close> as the
  \<open>unsigned int\<close> value of \<open>regmap_write\<close>.
\<close>

definition max31335_read_offset :: "int \<Rightarrow> max31335_data \<Rightarrow> int \<times> int \<times> max31335_data" where
  "max31335_read_offset offset s =
     (case regmap_read MAX31335_AGING_OFFSET s of
        (Inl ret, s') \<Rightarrow> (ret, offset, s')
      | (Inr v, s') \<Rightarrow> (0, uint v, s'))"

definition max31335_set_offset :: "int \<Rightarrow> max31335_data \<Rightarrow> int \<times> max31335_data" where
  "max31335_set_offset offset s = regmap_write MAX31335_AGING_OFFSET (word_of_int offset) s"

section \<open>Alarm translation\<close>

text \<open>\<open>struct rtc_wkalrm\<close>: two \<open>unsigned char\<close> flags and the alarm time.\<close>

record rtc_wkalrm =
  enabled :: u8
  pending :: u8
  time :: rtc_time

text \<open>
  \<open>max31335_read_alarm\<close> stores the decoded fields in the caller's struct, then reads
  the current time into the local \<open>struct rtc_time time\<close>. That local is not
  initialised in the source; its contents on entry are the parameter \<open>stack_time\<close>.
\<close>

definition max31335_read_alarm ::
  "rtc_time \<Rightarrow> rtc_wkalrm \<Rightarrow> max31335_data \<Rightarrow> int \<times> rtc_wkalrm \<times> max31335_data" where
  "max31335_read_alarm stack_time alrm s =
     (case regmap_bulk_read MAX31335_ALM1_SEC 6 s of
        (Inl ret, s1) \<Rightarrow> (ret, alrm, s1)
      | (Inr rs, s1) \<Rightarrow>
          (let alrm = alrm\<lparr>time := (time alrm)
                 \<lparr>tm_sec := sint (bcd2bin (rs ! 0 AND 0x7f)),
                  tm_min := sint (bcd2bin (rs ! 1 AND 0x7f)),
                  tm_hour := sint (bcd2bin (rs ! 2 AND 0x3f)),
                  tm_mday := sint (bcd2bin (rs ! 3 AND 0x3f)),
                  tm_mon := sint (bcd2bin (rs ! 4 AND 0x1f) - 1),
                  tm_year := sint (bcd2bin (rs ! 5) + 100)\<rparr>\<rparr>
           in case max31335_read_time stack_time s1 of
             (ret, now, s2) \<Rightarrow>
               if ret \<noteq> 0 then (ret, alrm, s2)
               else
                 (let alrm = (if tm_year now \<ge> 200
                              then alrm\<lparr>time := (time alrm)
                                     \<lparr>tm_year := tm_year (time alrm) + 100\<rparr>\<rparr>
                              else alrm)
                  in case regmap_read MAX31335_INT_EN s2 of
                    (Inl ret, s3) \<Rightarrow> (ret, alrm, s3)
                  | (Inr ctrl, s3) \<Rightarrow>
                      (case regmap_read MAX31335_STATUS1 s3 of
                         (Inl ret, s4) \<Rightarrow> (ret, alrm, s4)
                       | (Inr status, s4) \<Rightarrow>
                           (0, alrm\<lparr>enabled := ucast (FIELD_GET MAX31335_INT_EN1_A1IE ctrl),
                                     pending := ucast (FIELD_GET MAX31335_STATUS1_A1F status)\<rparr>,
                            s4)))))"

text \<open>
  \<open>max31335_set_alarm\<close>: after the bulk write the source has
  \<open>return regmap_update_bits(..., MAX31335_INT_EN, MAX31335_INT_EN1_A1IE, reg);\<close>
  and the function ends there. The lines that follow it in the source (a test of
  \<open>ret\<close> and the update of \<open>MAX31335_STATUS1\<close> that clears \<open>A1F\<close>) are never
  executed.
\<close>

definition max31335_set_alarm :: "rtc_wkalrm \<Rightarrow> max31335_data \<Rightarrow> int \<times> max31335_data" where
  "max31335_set_alarm alrm s =
     (let rs = [bin2bcd (word_of_int (tm_sec (time alrm))),
                bin2bcd (word_of_int (tm_min (time alrm))),
                bin2bcd (word_of_int (tm_hour (time alrm))),
                bin2bcd (word_of_int (tm_mday (time alrm))),
                bin2bcd (word_of_int (tm_mon (time alrm) + 1)),
                bin2bcd (word_of_int (tm_year (time alrm) smod 100))]
      in case regmap_bulk_write MAX31335_ALM1_SEC rs s of
        (ret, s1) \<Rightarrow>
          if ret \<noteq> 0 then (ret, s1)
          else regmap_update_bits MAX31335_INT_EN MAX31335_INT_EN1_A1IE
                 (FIELD_PREP MAX31335_INT_EN1_A1IE (ucast (enabled alrm))) s1)"

definition max31335_alarm_irq_enable :: "u32 \<Rightarrow> max31335_data \<Rightarrow> int \<times> max31335_data" where
  "max31335_alarm_irq_enable en s =
     regmap_update_bits MAX31335_INT_EN MAX31335_INT_EN1_A1IE en s"

section \<open>Interrupt handler\<close>

datatype irqreturn = IRQ_NONE | IRQ_HANDLED | IRQ_WAKE_THREAD

text \<open>\<open>RTC_AF\<close> and \<open>RTC_IRQF\<close> of \<open>linux/rtc.h\<close>.\<close>

definition RTC_AF :: u32 where "RTC_AF = 0x20"
definition RTC_IRQF :: u32 where "RTC_IRQF = 0x80"

definition max31335_handle_irq :: "max31335_data \<Rightarrow> irqreturn \<times> max31335_data" where
  "max31335_handle_irq s =
     (case regmap_read MAX31335_STATUS1 (emit Lock s) of
        (Inl ret, s1) \<Rightarrow> (IRQ_HANDLED, emit Unlock s1)
      | (Inr status, s1) \<Rightarrow>
          if FIELD_GET MAX31335_STATUS1_A1F status \<noteq> 0
          then
            (case regmap_update_bits MAX31335_STATUS1 MAX31335_STATUS1_A1F 0 s1 of
               (ret, s2) \<Rightarrow>
                 if ret \<noteq> 0 then (IRQ_HANDLED, emit Unlock s2)
                 else (IRQ_HANDLED,
                       emit Unlock (emit (RtcUpdateIrq 1 (RTC_AF OR RTC_IRQF)) s2)))
          else (IRQ_HANDLED, emit Unlock s1))"

section \<open>Register map descriptor\<close>

text \<open>
  \<open>max31335_volatile_reg\<close>. The second test compares the address with the bit mask
  \<open>MAX31335_INT_EN1_A1IE\<close>; the third is \<open>reg == MAX31335_TEMP_DATA_MSB ||
  MAX31335_TEMP_DATA_LSB\<close>, whose right operand is the non-zero constant itself. The
  source has no \<open>return\<close> after the third test: \<open>None\<close> stands for reaching the end
  of the function without a value.
\<close>

definition max31335_volatile_reg :: "nat \<Rightarrow> bool option" where
  "max31335_volatile_reg reg =
     (if reg \<ge> MAX31335_SECONDS \<and> reg < MAX31335_SECONDS + MAX31335_TIME_SIZE
      then Some True
      else if reg = unat (MAX31335_INT_EN1_A1IE :: u32) then Some True
      else if reg = MAX31335_TEMP_DATA_MSB \<or> MAX31335_TEMP_DATA_LSB \<noteq> 0 then Some True
      else None)"

text \<open>
  The predicate in the words of the spec: the time-keeping range, the interrupt-status
  register and the two temperature-data registers.
\<close>

definition volatile_reg_spec :: "nat \<Rightarrow> bool" where
  "volatile_reg_spec reg \<longleftrightarrow>
     (MAX31335_SECONDS \<le> reg \<and> reg < MAX31335_SECONDS + MAX31335_TIME_SIZE) \<or>
     reg = MAX31335_STATUS1 \<or>
     reg = MAX31335_TEMP_DATA_MSB \<or> reg = MAX31335_TEMP_DATA_LSB"

section \<open>Trickle charger\<close>

definition max31335_trickle_resistors :: "u16 list" where
  "max31335_trickle_resistors = [3000, 6000, 11000]"

text \<open>
  The device properties the driver reads: \<open>trickle-resistor-ohms\<close> (\<open>None\<close> when
  \<open>device_property_read_u32\<close> fails), \<open>trickle-diode-enable\<close> and \<open>#clock-cells\<close>.
\<close>

record device_props =
  trickle_resistor_ohms :: "u32 option"
  trickle_diode_enable :: bool
  clock_cells :: bool

text \<open>The search loop of the setup: the value of \<open>i\<close> when the loop is left.\<close>

function trickle_scan :: "u32 \<Rightarrow> nat \<Rightarrow> nat" where
  "trickle_scan ohms i =
     (if i < length max31335_trickle_resistors
      then (if ohms = ucast (max31335_trickle_resistors ! i) then i
            else trickle_scan ohms (i + 1))
      else i)"
  by pat_completeness auto
termination
  by (relation "measure (\<lambda>(ohms, i). length max31335_trickle_resistors - i)") auto

declare trickle_scan.simps [simp del]

definition max31335_trickle_charger_setup ::
  "device_props \<Rightarrow> max31335_data \<Rightarrow> int \<times> max31335_data" where
  "max31335_trickle_charger_setup props s =
     (case trickle_resistor_ohms props of
        None \<Rightarrow> (0, s)
      | Some ohms \<Rightarrow>
          (let diode = trickle_diode_enable props;
               i = trickle_scan ohms 0
           in if i \<ge> length max31335_trickle_resistors
              then (0, emit (DevWarn ''invalid trickle resistor value'') s)
              else
                (let i = (if diode then i + 4 else i + 1)
                 in regmap_write MAX31335_TRICKLE_REG
                      (FIELD_PREP MAX31335_TRICKLE (of_nat i) OR MAX31335_EN_TRICKLE) s)))"

section \<open>Device bring-up\<close>

text \<open>
  The part of \<open>struct rtc_device\<close> the driver touches. A freshly allocated device has
  no range, no operations, and the alarm feature set (\<open>rtc_allocate_device\<close>).
\<close>

record rtc_device =
  range_min :: int
  range_max :: int
  feature_alarm :: bool
  has_ops :: bool

definition rtc_allocated :: rtc_device where
  "rtc_allocated = \<lparr>range_min = 0, range_max = 0, feature_alarm = True, has_ops = False\<rparr>"

text \<open>\<open>linux/rtc.h\<close>: the timestamps of 2000-01-01 00:00:00 and 2199-12-31 23:59:59.\<close>

definition RTC_TIMESTAMP_BEGIN_2000 :: int where "RTC_TIMESTAMP_BEGIN_2000 = 946684800"
definition RTC_TIMESTAMP_END_2199 :: int where "RTC_TIMESTAMP_END_2199 = 7258118399"

text \<open>
  The framework's conversion of a \<open>struct rtc_time\<close> to seconds since 1970
  (\<open>rtc_tm_to_time64\<close>, through \<open>mktime64\<close> of \<open>kernel/time/time.c\<close>), on the
  integers: February is moved to the end of the previous year.
\<close>

definition mktime64 :: "int \<Rightarrow> int \<Rightarrow> int \<Rightarrow> int \<Rightarrow> int \<Rightarrow> int \<Rightarrow> int" where
  "mktime64 year0 mon0 day hour mn sec =
     (let mon = (if mon0 - 2 \<le> 0 then mon0 - 2 + 12 else mon0 - 2);
          year = (if mon0 - 2 \<le> 0 then year0 - 1 else year0)
      in ((((year div 4 - year div 100 + year div 400 + 367 * mon div 12 + day)
             + year * 365 - 719499) * 24 + hour) * 60 + mn) * 60 + sec)"

definition rtc_tm_to_time64 :: "rtc_time \<Rightarrow> int" where
  "rtc_tm_to_time64 tm =
     mktime64 (tm_year tm + 1900) (tm_mon tm + 1) (tm_mday tm)
       (tm_hour tm) (tm_min tm) (tm_sec tm)"

text \<open>
  What the platform answers during \<open>max31335_probe\<close>: whether the allocation
  succeeds, the error of \<open>devm_regmap_init_i2c\<close> and of \<open>devm_rtc_allocate_device\<close>
  (\<open>0\<close> for a valid pointer), the return codes of the registration calls, the
  interrupt line of the client and the device properties. What the clock framework
  does on the bus while it registers and enables the clock is not part of the model.
\<close>

record probe_env =
  kzalloc_ok :: bool
  regmap_init_err :: int
  rtc_allocate_err :: int
  rtc_register_ret :: int
  clk_hw_register_ret :: int
  clk_add_provider_ret :: int
  clk_prepare_enable_ret :: int
  client_irq :: int
  request_irq_ret :: int
  props :: device_props

definition ENOMEM :: int where "ENOMEM = 12"

definition max31335_clkout_register :: "probe_env \<Rightarrow> int" where
  "max31335_clkout_register env =
     (if \<not> clock_cells (props env) then 0
      else if clk_hw_register_ret env \<noteq> 0 then clk_hw_register_ret env
      else if clk_add_provider_ret env \<noteq> 0 then clk_add_provider_ret env
      else if clk_prepare_enable_ret env \<noteq> 0 then clk_prepare_enable_ret env
      else 0)"

text \<open>
  \<open>max31335_probe\<close> returns its code, the RTC device as the driver left it (\<open>None\<close>
  when none was allocated) and the device context. The range is assigned before
  \<open>devm_rtc_register_device\<close> is called; the return value of the trickle-charger setup
  is ignored.
\<close>

definition max31335_probe ::
  "probe_env \<Rightarrow> max31335_data \<Rightarrow> int \<times> rtc_device option \<times> max31335_data" where
  "max31335_probe env s =
     (if \<not> kzalloc_ok env then (- ENOMEM, None, s)
      else if regmap_init_err env \<noteq> 0 then (regmap_init_err env, None, s)
      else
        (case regmap_read MAX31335_STATUS1 s of
           (r, s1) \<Rightarrow>
             (let ret = (case r of Inl e \<Rightarrow> e | Inr status \<Rightarrow> 0)
              in if ret < 0 then (ret, None, s1)
                 else if rtc_allocate_err env \<noteq> 0 then (rtc_allocate_err env, None, s1)
                 else
                   (let rtc = rtc_allocated\<lparr>has_ops := True\<rparr>;
                        rtc = rtc\<lparr>range_min := RTC_TIMESTAMP_BEGIN_2000\<rparr>;
                        rtc = rtc\<lparr>range_max := RTC_TIMESTAMP_END_2199\<rparr>
                    in if rtc_register_ret env \<noteq> 0
                       then (rtc_register_ret env, Some rtc, s1)
                       else if max31335_clkout_register env \<noteq> 0
                       then (max31335_clkout_register env, Some rtc, s1)
                       else
                         (let failed = (client_irq env > 0 \<and> request_irq_ret env \<noteq> 0);
                              s2 = (if failed
                                    then emit (DevWarn
                                      ''unable to request IRQ, alarm max31335 disabled'') s1
                                    else s1);
                              irq = (if failed then 0 else client_irq env);
                              rtc = (if irq = 0 then rtc\<lparr>feature_alarm := False\<rparr> else rtc)
                          in case max31335_trickle_charger_setup (props env) s2 of
                               (ignored, s3) \<Rightarrow> (0, Some rtc, s3))))))"

section \<open>Verification: the time round trip\<close>

text \<open>
  Each field's codec is checked on every value of its range; the ranges are finite, so
  the check is a computation.
\<close>

lemma bcd_sec_min_all:
  "\<forall>x \<in> set [0..59]. sint (bcd2bin (bin2bcd (word_of_int x) AND 0x7f)) = x"
  by code_simp

lemma bcd_hour_all:
  "\<forall>x \<in> set [0..23]. max31335_get_hour (bin2bcd (word_of_int x)) = x"
  by code_simp

lemma bcd_wday_all:
  "\<forall>x \<in> set [0..6]. sint (bcd2bin (bin2bcd (word_of_int (x + 1)) AND 0x7) - 1) = x"
  by code_simp

lemma bcd_mday_all:
  "\<forall>x \<in> set [1..31]. sint (bcd2bin (bin2bcd (word_of_int x) AND 0x3f)) = x"
  by code_simp

lemma bcd_mon_all:
  "\<forall>x \<in> set [0..11].
     sint (bcd2bin (bin2bcd (word_of_int (x + 1)) AND 0x1f) - 1) = x \<and>
     sint (bcd2bin ((bin2bcd (word_of_int (x + 1)) OR FIELD_PREP MAX31335_MONTH_CENTURY 1)
                    AND 0x1f) - 1) = x \<and>
     FIELD_GET MAX31335_MONTH_CENTURY (bin2bcd (word_of_int (x + 1))) = 0 \<and>
     FIELD_GET MAX31335_MONTH_CENTURY
       (bin2bcd (word_of_int (x + 1)) OR FIELD_PREP MAX31335_MONTH_CENTURY 1) \<noteq> 0"
  by code_simp

lemma bcd_year_all:
  "\<forall>x \<in> set [100..299].
     sint (bcd2bin (bin2bcd (word_of_int (x smod 100))) + 100)
       = (if x \<ge> 200 then x - 100 else x)"
  by code_simp

lemma sec_min_roundtrip:
  assumes "0 \<le> x" "x \<le> 59"
  shows "sint (bcd2bin (bin2bcd (word_of_int x) AND 0x7f)) = x"
proof -
  from assms have "x \<in> {0..59}" by simp
  then have "x \<in> set [0..59]" by (simp only: set_upto)
  then show ?thesis by (rule bspec [OF bcd_sec_min_all])
qed

lemma hour_roundtrip:
  assumes "0 \<le> x" "x \<le> 23"
  shows "max31335_get_hour (bin2bcd (word_of_int x)) = x"
proof -
  from assms have "x \<in> {0..23}" by simp
  then have "x \<in> set [0..23]" by (simp only: set_upto)
  then show ?thesis by (rule bspec [OF bcd_hour_all])
qed

lemma wday_roundtrip:
  assumes "0 \<le> x" "x \<le> 6"
  shows "sint (bcd2bin (bin2bcd (word_of_int (x + 1)) AND 0x7) - 1) = x"
proof -
  from assms have "x \<in> {0..6}" by simp
  then have "x \<in> set [0..6]" by (simp only: set_upto)
  then show ?thesis by (rule bspec [OF bcd_wday_all])
qed

lemma mday_roundtrip:
  assumes "1 \<le> x" "x \<le> 31"
  shows "sint (bcd2bin (bin2bcd (word_of_int x) AND 0x3f)) = x"
proof -
  from assms have "x \<in> {1..31}" by simp
  then have "x \<in> set [1..31]" by (simp only: set_upto)
  then show ?thesis by (rule bspec [OF bcd_mday_all])
qed

lemma mon_roundtrip:
  assumes "0 \<le> x" "x \<le> 11"
  shows "sint (bcd2bin (bin2bcd (word_of_int (x + 1)) AND 0x1f) - 1) = x"
    and "sint (bcd2bin ((bin2bcd (word_of_int (x + 1)) OR FIELD_PREP MAX31335_MONTH_CENTURY 1)
                    AND 0x1f) - 1) = x"
    and "FIELD_GET MAX31335_MONTH_CENTURY (bin2bcd (word_of_int (x + 1))) = 0"
    and "FIELD_GET MAX31335_MONTH_CENTURY
       (bin2bcd (word_of_int (x + 1)) OR FIELD_PREP MAX31335_MONTH_CENTURY 1) \<noteq> 0"
proof -
  from assms have "x \<in> {0..11}" by simp
  then have "x \<in> set [0..11]" by (simp only: set_upto)
  then have *: "sint (bcd2bin (bin2bcd (word_of_int (x + 1)) AND 0x1f) - 1) = x \<and>
     sint (bcd2bin ((bin2bcd (word_of_int (x + 1)) OR FIELD_PREP MAX31335_MONTH_CENTURY 1)
                    AND 0x1f) - 1) = x \<and>
     FIELD_GET MAX31335_MONTH_CENTURY (bin2bcd (word_of_int (x + 1))) = 0 \<and>
     FIELD_GET MAX31335_MONTH_CENTURY
       (bin2bcd (word_of_int (x + 1)) OR FIELD_PREP MAX31335_MONTH_CENTURY 1) \<noteq> 0"
    by (rule bspec [OF bcd_mon_all])
  from * show "sint (bcd2bin (bin2bcd (word_of_int (x + 1)) AND 0x1f) - 1) = x" by blast
  from * show "sint (bcd2bin ((bin2bcd (word_of_int (x + 1)) OR FIELD_PREP MAX31335_MONTH_CENTURY 1)
                    AND 0x1f) - 1) = x" by blast
  from * show "FIELD_GET MAX31335_MONTH_CENTURY (bin2bcd (word_of_int (x + 1))) = 0" by blast
  from * show "FIELD_GET MAX31335_MONTH_CENTURY
       (bin2bcd (word_of_int (x + 1)) OR FIELD_PREP MAX31335_MONTH_CENTURY 1) \<noteq> 0" by blast
qed

lemma year_roundtrip:
  assumes "100 \<le> x" "x \<le> 299"
  shows "sint (bcd2bin (bin2bcd (word_of_int (x smod 100))) + 100)
       = (if x \<ge> 200 then x - 100 else x)"
proof -
  from assms have "x \<in> {100..299}" by simp
  then have "x \<in> set [100..299]" by (simp only: set_upto)
  then show ?thesis by (rule bspec [OF bcd_year_all])
qed

lemma decode_encode_time:
  assumes "rtc_time_in_range tm"
  shows "decode_time (encode_time tm) tm0 = with_civil_fields tm tm0"
proof -
  from assms have r:
    "0 \<le> tm_sec tm" "tm_sec tm \<le> 59" "0 \<le> tm_min tm" "tm_min tm \<le> 59"
    "0 \<le> tm_hour tm" "tm_hour tm \<le> 23" "0 \<le> tm_wday tm" "tm_wday tm \<le> 6"
    "1 \<le> tm_mday tm" "tm_mday tm \<le> 31" "0 \<le> tm_mon tm" "tm_mon tm \<le> 11"
    "100 \<le> tm_year tm" "tm_year tm \<le> 299"
    by (simp_all add: rtc_time_in_range_def)
  note rt = sec_min_roundtrip [OF r(1,2)] sec_min_roundtrip [OF r(3,4)]
    hour_roundtrip [OF r(5,6)] wday_roundtrip [OF r(7,8)] mday_roundtrip [OF r(9,10)]
    mon_roundtrip [OF r(11,12)] year_roundtrip [OF r(13,14)]
  show ?thesis
  proof (cases "tm_year tm \<ge> 200")
    case True
    then show ?thesis
      unfolding decode_time_def encode_time_def with_civil_fields_def Let_def
      by (simp del: of_int_add add: rt)
  next
    case False
    then show ?thesis
      unfolding decode_time_def encode_time_def with_civil_fields_def Let_def
      by (simp del: of_int_add add: rt)
  qed
qed

lemma length_encode_time: "length (encode_time tm) = 7"
  by (simp add: encode_time_def Let_def)

lemma bulk_write_read_back:
  "map (\<lambda>a. if reg \<le> a \<and> a < reg + length vals then vals ! (a - reg) else r a)
       [reg..<reg + length vals] = vals"
  by (rule nth_equalityI) simp_all


lemma set_time_ok:
  "bus_ret s = 0 \<Longrightarrow>
     max31335_set_time tm s =
       (0, (bus_next (BulkWrite MAX31335_SECONDS (encode_time tm)) s)
             \<lparr>regs := (\<lambda>a. if MAX31335_SECONDS \<le> a \<and> a < MAX31335_SECONDS + 7
                             then encode_time tm ! (a - MAX31335_SECONDS) else regs s a)\<rparr>)"
  by (simp add: max31335_set_time_def regmap_bulk_write_def length_encode_time)

lemma read_time_ok:
  "bus_ret s = 0 \<Longrightarrow>
     max31335_read_time tm0 s =
       (0, decode_time (map (regs s) [MAX31335_SECONDS..<MAX31335_SECONDS + 7]) tm0,
        bus_next (BulkRead MAX31335_SECONDS 7) s)"
  by (simp add: max31335_read_time_def regmap_bulk_read_def)

lemma regs_after_set_time:
  assumes "bus_ret s = 0"
  shows "map (regs (snd (max31335_set_time tm s))) [MAX31335_SECONDS..<MAX31335_SECONDS + 7]
           = encode_time tm"
proof -
  have "map (\<lambda>a. if MAX31335_SECONDS \<le> a \<and> a < MAX31335_SECONDS + length (encode_time tm)
                  then encode_time tm ! (a - MAX31335_SECONDS) else regs s a)
            [MAX31335_SECONDS..<MAX31335_SECONDS + length (encode_time tm)] = encode_time tm"
    by (rule bulk_write_read_back)
  then show ?thesis
    using assms by (simp add: set_time_ok length_encode_time)
qed

text \<open>
  C1. For every time \<open>tm\<close> of the supported range (2000-01-01 00:00:00 to 2199-12-31
  23:59:59), when the bulk write of \<open>max31335_set_time\<close> and the bulk read of the
  following \<open>max31335_read_time\<close> both succeed, \<open>max31335_set_time\<close> returns 0 and
  \<open>max31335_read_time\<close> returns 0 with the caller's struct holding exactly the seven
  fields of \<open>tm\<close>: second, minute, hour, weekday, day of month, month and year.
\<close>

theorem set_time_read_time_roundtrip:
  assumes "rtc_time_in_range tm"
    and "bus_ret s = 0"
    and "bus_ret (snd (max31335_set_time tm s)) = 0"
  shows "fst (max31335_set_time tm s) = 0 \<and>
         fst (max31335_read_time tm0 (snd (max31335_set_time tm s))) = 0 \<and>
         fst (snd (max31335_read_time tm0 (snd (max31335_set_time tm s))))
           = with_civil_fields tm tm0"
proof -
  have w: "fst (max31335_set_time tm s) = 0"
    using assms(2) by (simp add: set_time_ok)
  have r: "max31335_read_time tm0 (snd (max31335_set_time tm s)) =
             (0, decode_time (encode_time tm) tm0,
              bus_next (BulkRead MAX31335_SECONDS 7) (snd (max31335_set_time tm s)))"
    using read_time_ok [OF assms(3)] regs_after_set_time [OF assms(2)] by simp
  from w r decode_encode_time [OF assms(1)] show ?thesis by simp
qed

theorem set_time_read_time_roundtrip_witness:
  "rtc_time_in_range
     \<lparr>tm_sec = 56, tm_min = 34, tm_hour = 12, tm_mday = 15, tm_mon = 5, tm_year = 250,
      tm_wday = 1, tm_yday = 0, tm_isdst = 0\<rparr> \<and>
   fst (snd (max31335_read_time
     \<lparr>tm_sec = 0, tm_min = 0, tm_hour = 0, tm_mday = 0, tm_mon = 0, tm_year = 0,
      tm_wday = 0, tm_yday = 7, tm_isdst = 1\<rparr>
     (snd (max31335_set_time
        \<lparr>tm_sec = 56, tm_min = 34, tm_hour = 12, tm_mday = 15, tm_mon = 5, tm_year = 250,
         tm_wday = 1, tm_yday = 0, tm_isdst = 0\<rparr>
        \<lparr>regs = (\<lambda>a. 0), script = [], trace = []\<rparr>))))
   = \<lparr>tm_sec = 56, tm_min = 34, tm_hour = 12, tm_mday = 15, tm_mon = 5, tm_year = 250,
      tm_wday = 1, tm_yday = 7, tm_isdst = 1\<rparr>"
proof -
  let ?tm = "\<lparr>tm_sec = 56, tm_min = 34, tm_hour = 12, tm_mday = 15, tm_mon = 5,
              tm_year = 250, tm_wday = 1, tm_yday = 0, tm_isdst = 0\<rparr>"
  let ?s = "\<lparr>regs = (\<lambda>a. 0), script = [], trace = []\<rparr>"
  have h1: "rtc_time_in_range ?tm" by (simp add: rtc_time_in_range_def)
  have h2: "bus_ret ?s = 0" by (simp add: bus_ret_def)
  have h3: "bus_ret (snd (max31335_set_time ?tm ?s)) = 0"
    by (simp add: set_time_ok [OF h2] bus_ret_def bus_next_def)
  show ?thesis
    using h1 set_time_read_time_roundtrip [OF h1 h2 h3]
    by (simp add: with_civil_fields_def)
qed


section \<open>Verification: error atomicity of the time read\<close>

text \<open>
  C10. When the bulk read of the 7 time registers fails, \<open>max31335_read_time\<close> returns
  the bus error and the caller's struct is returned as it was passed in; the only thing
  that happened is the failed bulk read. The same holds for \<open>max31335_get_time\<close> of
  the draft.
\<close>

theorem read_time_atomic_on_error:
  assumes "bus_ret s \<noteq> 0"
  shows "max31335_read_time tm s
           = (bus_ret s, tm, bus_next (BulkRead MAX31335_SECONDS 7) s) \<and>
         max31335_get_time tm s
           = (bus_ret s, tm, bus_next (BulkRead MAX31335_SECONDS 7) s)"
  using assms
  by (simp add: max31335_read_time_def max31335_get_time_def regmap_bulk_read_def)

theorem read_time_atomic_on_error_witness:
  "bus_ret \<lparr>regs = (\<lambda>a. 0x59), script = [- 5], trace = []\<rparr> \<noteq> 0 \<and>
   max31335_read_time
     \<lparr>tm_sec = 1, tm_min = 2, tm_hour = 3, tm_mday = 4, tm_mon = 5, tm_year = 106,
      tm_wday = 0, tm_yday = 8, tm_isdst = 9\<rparr>
     \<lparr>regs = (\<lambda>a. 0x59), script = [- 5], trace = []\<rparr>
   = (- 5,
      \<lparr>tm_sec = 1, tm_min = 2, tm_hour = 3, tm_mday = 4, tm_mon = 5, tm_year = 106,
       tm_wday = 0, tm_yday = 8, tm_isdst = 9\<rparr>,
      \<lparr>regs = (\<lambda>a. 0x59), script = [], trace = [BulkRead 10 7]\<rparr>)"
proof -
  have h: "bus_ret \<lparr>regs = (\<lambda>a. 0x59), script = [- 5], trace = []\<rparr> \<noteq> 0"
    by (simp add: bus_ret_def)
  show ?thesis
    using h read_time_atomic_on_error [OF h]
    by (simp add: bus_ret_def bus_next_def MAX31335_SECONDS_def)
qed

section \<open>Verification: the interrupt handler\<close>

lemma field_get_a1f: "FIELD_GET MAX31335_STATUS1_A1F (x :: 'a::len word) = x AND 1"
  by (simp add: FIELD_GET_def MAX31335_STATUS1_A1F_def BIT_def bf_shf_def ctz.simps)

lemma and_1_eq_0_iff: "(x AND 1 = 0) \<longleftrightarrow> \<not> bit x 0" for x :: "'a::len word"
  by (simp add: and_one_eq bit_0 even_iff_mod_2_eq_zero)

lemma ucast_and_1_eq_0: "((ucast (b :: u8) :: u32) AND 1 = 0) \<longleftrightarrow> (b AND 1 = 0)"
  by (simp add: and_1_eq_0_iff bit_ucast_iff)

text \<open>
  C7. When the status read succeeds and the alarm-pending bit \<open>A1F\<close> of the status
  register is 0, \<open>max31335_handle_irq\<close> returns \<open>IRQ_HANDLED\<close>; what it did is: take
  the lock, read the status register, release the lock. The registers are unchanged, no
  write or update is issued and no event is sent to the RTC framework.
\<close>

theorem handle_irq_spurious:
  assumes "bus_ret s = 0"
    and "regs s MAX31335_STATUS1 AND MAX31335_STATUS1_A1F = 0"
  shows "max31335_handle_irq s =
           (IRQ_HANDLED,
            s\<lparr>script := tl (script s),
              trace := trace s @ [Lock, RegRead MAX31335_STATUS1, Unlock]\<rparr>)"
proof -
  have b: "bus_ret (emit Lock s) = 0"
    using assms(1) by (simp add: bus_ret_def emit_def)
  have f: "FIELD_GET MAX31335_STATUS1_A1F (ucast (regs s MAX31335_STATUS1) :: u32) = 0"
    using assms(2)
    by (simp add: field_get_a1f ucast_and_1_eq_0) (simp add: MAX31335_STATUS1_A1F_def BIT_def)
  show ?thesis
    using b f
    by (simp add: max31335_handle_irq_def regmap_read_def emit_def bus_next_def)
qed

theorem handle_irq_spurious_witness:
  "bus_ret \<lparr>regs = (\<lambda>a. 0xFE), script = [], trace = []\<rparr> = 0 \<and>
   regs \<lparr>regs = (\<lambda>a. 0xFE), script = [], trace = []\<rparr> MAX31335_STATUS1
     AND MAX31335_STATUS1_A1F = 0 \<and>
   max31335_handle_irq \<lparr>regs = (\<lambda>a. 0xFE), script = [], trace = []\<rparr>
     = (IRQ_HANDLED,
        \<lparr>regs = (\<lambda>a. 0xFE), script = [], trace = [Lock, RegRead 0, Unlock]\<rparr>)"
proof -
  let ?s = "\<lparr>regs = (\<lambda>a. 0xFE), script = [], trace = []\<rparr>"
  have h1: "bus_ret ?s = 0" by (simp add: bus_ret_def)
  have h2: "regs ?s MAX31335_STATUS1 AND MAX31335_STATUS1_A1F = 0"
    by (simp add: MAX31335_STATUS1_A1F_def BIT_def)
  show ?thesis
    using h1 h2 handle_irq_spurious [OF h1 h2]
    by (simp add: MAX31335_STATUS1_def)
qed

text \<open>
  For contrast, with \<open>A1F\<close> set and a working bus the handler updates the status
  register and reports the alarm.
\<close>

lemma handle_irq_pending_example:
  "max31335_handle_irq \<lparr>regs = (\<lambda>a. 0x01), script = [], trace = []\<rparr>
     = (IRQ_HANDLED,
        \<lparr>regs = (\<lambda>a. 0x01)(0 := 0), script = [],
         trace = [Lock, RegRead 0, UpdateBits 0 1 0, RtcUpdateIrq 1 0xA0, Unlock]\<rparr>)"
  by (simp add: max31335_handle_irq_def regmap_read_def regmap_update_bits_def emit_def
      bus_next_def bus_ret_def MAX31335_STATUS1_def field_get_a1f RTC_AF_def RTC_IRQF_def)
    (simp add: MAX31335_STATUS1_A1F_def BIT_def)

section \<open>Verification: the trickle charger\<close>

lemma trickle_scan_6000: "trickle_scan 6000 0 = 1"
  by (simp add: trickle_scan.simps max31335_trickle_resistors_def)

lemma trickle_scan_unsupported:
  assumes "ohms \<notin> {3000, 6000, 11000}"
  shows "trickle_scan ohms 0 = 3"
  using assms by (simp add: trickle_scan.simps max31335_trickle_resistors_def)

lemma bf_shf_trickle: "bf_shf (MAX31335_TRICKLE :: u32) = 1"
  by (simp add: bf_shf_def MAX31335_TRICKLE_def GENMASK_def mask_eq_exp_minus_1 ctz.simps)

text \<open>
  C8. With \<open>trickle-resistor-ohms = 6000\<close> and the diode enabled, the setup issues one
  write to the trickle register whose trickle field is \<open>lookup(6000) + 4\<close>, where
  \<open>lookup(6000) = 1\<close> is the index of 6000 in the table (so the field holds 5, and the
  register holds it once the write succeeds). With a resistor value outside
  \<open>{3000, 6000, 11000}\<close> the setup issues no bus transaction, logs the warning and
  returns 0.
\<close>

theorem trickle_charger_setup_cases:
  "max31335_trickle_resistors ! trickle_scan 6000 0 = 6000 \<and>
   max31335_trickle_charger_setup
     (p\<lparr>trickle_resistor_ohms := Some 6000, trickle_diode_enable := True\<rparr>) s
     = regmap_write MAX31335_TRICKLE_REG
         (FIELD_PREP MAX31335_TRICKLE (of_nat (trickle_scan 6000 0 + 4))
            OR MAX31335_EN_TRICKLE) s \<and>
   FIELD_GET MAX31335_TRICKLE
     (FIELD_PREP MAX31335_TRICKLE (of_nat (trickle_scan 6000 0 + 4))
        OR MAX31335_EN_TRICKLE :: u32) = of_nat (trickle_scan 6000 0 + 4) \<and>
   (bus_ret s = 0 \<longrightarrow>
      FIELD_GET MAX31335_TRICKLE
        (regs (snd (max31335_trickle_charger_setup
           (p\<lparr>trickle_resistor_ohms := Some 6000, trickle_diode_enable := True\<rparr>) s))
           MAX31335_TRICKLE_REG) = 5) \<and>
   (\<forall>ohms. ohms \<notin> {3000, 6000, 11000} \<longrightarrow>
      max31335_trickle_charger_setup (p\<lparr>trickle_resistor_ohms := Some ohms\<rparr>) s
        = (0, s\<lparr>trace := trace s @ [DevWarn ''invalid trickle resistor value'']\<rparr>))"
proof -
  have a: "max31335_trickle_resistors ! trickle_scan 6000 0 = 6000"
    by (simp add: trickle_scan_6000 max31335_trickle_resistors_def)
  have b: "max31335_trickle_charger_setup
     (p\<lparr>trickle_resistor_ohms := Some 6000, trickle_diode_enable := True\<rparr>) s
     = regmap_write MAX31335_TRICKLE_REG
         (FIELD_PREP MAX31335_TRICKLE (of_nat (trickle_scan 6000 0 + 4))
            OR MAX31335_EN_TRICKLE) s"
    by (simp add: max31335_trickle_charger_setup_def trickle_scan_6000
        max31335_trickle_resistors_def)
  have v: "(FIELD_PREP MAX31335_TRICKLE (of_nat (trickle_scan 6000 0 + 4))
              OR MAX31335_EN_TRICKLE :: u32) = 0x0B"
    by (simp add: trickle_scan_6000 FIELD_PREP_def bf_shf_trickle)
      (simp add: MAX31335_TRICKLE_def GENMASK_def MAX31335_EN_TRICKLE_def BIT_def
        mask_eq_exp_minus_1)
  have c: "FIELD_GET MAX31335_TRICKLE
     (FIELD_PREP MAX31335_TRICKLE (of_nat (trickle_scan 6000 0 + 4))
        OR MAX31335_EN_TRICKLE :: u32) = of_nat (trickle_scan 6000 0 + 4)"
    unfolding v
    by (simp add: trickle_scan_6000 FIELD_GET_def bf_shf_trickle)
      (simp add: MAX31335_TRICKLE_def GENMASK_def mask_eq_exp_minus_1)
  have g8: "bf_shf (MAX31335_TRICKLE :: u8) = 1"
    by (simp add: bf_shf_def MAX31335_TRICKLE_def GENMASK_def mask_eq_exp_minus_1 ctz.simps)
  have d: "bus_ret s = 0 \<longrightarrow>
      FIELD_GET MAX31335_TRICKLE
        (regs (snd (max31335_trickle_charger_setup
           (p\<lparr>trickle_resistor_ohms := Some 6000, trickle_diode_enable := True\<rparr>) s))
           MAX31335_TRICKLE_REG) = 5"
    unfolding b v
    by (simp add: regmap_write_def bus_next_def FIELD_GET_def g8)
      (simp add: MAX31335_TRICKLE_def GENMASK_def mask_eq_exp_minus_1)
  have e: "\<forall>ohms. ohms \<notin> {3000, 6000, 11000} \<longrightarrow>
      max31335_trickle_charger_setup (p\<lparr>trickle_resistor_ohms := Some ohms\<rparr>) s
        = (0, s\<lparr>trace := trace s @ [DevWarn ''invalid trickle resistor value'']\<rparr>)"
    by (simp add: max31335_trickle_charger_setup_def trickle_scan_unsupported
        max31335_trickle_resistors_def emit_def)
  from a b c d e show ?thesis by blast
qed

theorem trickle_charger_setup_cases_witness:
  "bus_ret \<lparr>regs = (\<lambda>a. 0), script = [], trace = []\<rparr> = 0 \<and>
   max31335_trickle_charger_setup
     \<lparr>trickle_resistor_ohms = Some 6000, trickle_diode_enable = True, clock_cells = False\<rparr>
     \<lparr>regs = (\<lambda>a. 0), script = [], trace = []\<rparr>
     = (0, \<lparr>regs = (\<lambda>a. 0)(0x1D := 0x0B), script = [], trace = [RegWrite 0x1D 0x0B]\<rparr>) \<and>
   (5000 :: u32) \<notin> {3000, 6000, 11000} \<and>
   max31335_trickle_charger_setup
     \<lparr>trickle_resistor_ohms = Some 5000, trickle_diode_enable = True, clock_cells = False\<rparr>
     \<lparr>regs = (\<lambda>a. 0), script = [], trace = []\<rparr>
     = (0, \<lparr>regs = (\<lambda>a. 0), script = [],
             trace = [DevWarn ''invalid trickle resistor value'']\<rparr>)"
proof -
  let ?s = "\<lparr>regs = (\<lambda>a. 0), script = [], trace = []\<rparr>"
  let ?p = "\<lparr>trickle_resistor_ohms = Some 0, trickle_diode_enable = True,
             clock_cells = False\<rparr>"
  have h1: "bus_ret ?s = 0" by (simp add: bus_ret_def)
  have h2: "(5000 :: u32) \<notin> {3000, 6000, 11000}" by simp
  have v: "(FIELD_PREP MAX31335_TRICKLE 5 OR MAX31335_EN_TRICKLE :: u32) = 0x0B"
    by (simp add: FIELD_PREP_def bf_shf_trickle)
      (simp add: MAX31335_TRICKLE_def GENMASK_def MAX31335_EN_TRICKLE_def BIT_def
        mask_eq_exp_minus_1)
  from trickle_charger_setup_cases [of ?p ?s] h1 h2 v show ?thesis
    by (simp add: trickle_scan_6000 regmap_write_def bus_next_def bus_ret_def
        MAX31335_TRICKLE_REG_def)
qed

section \<open>Verification: the alarm's century\<close>

text \<open>The next \<open>n\<close> bus transactions succeed.\<close>

lemma bus_ok_now:
  assumes "0 < n" and "set (take n (script s)) \<subseteq> {0}"
  shows "bus_ret s = 0"
  using assms by (cases "script s"; cases n) (simp_all add: bus_ret_def)

lemma bus_ok_later:
  assumes "set (take n (script s)) \<subseteq> {0}"
  shows "set (take (n - 1) (script (bus_next e s))) \<subseteq> {0}"
  using assms by (cases "script s"; cases n) (simp_all add: bus_next_def)

lemma read_time_year_regs:
  assumes "bus_ret s = 0" and "bus_ret s' = 0" and "regs s' = regs s"
  shows "tm_year (fst (snd (max31335_read_time st s')))
           = tm_year (fst (snd (max31335_read_time st s)))"
  using assms by (simp add: read_time_ok)

text \<open>
  C5. When the four bus transactions of \<open>max31335_read_alarm\<close> succeed, it returns 0
  and the alarm's year is the stored 2-digit year plus 100, plus another 100 exactly
  when the current time, read by \<open>max31335_read_time\<close>, has \<open>tm_year \<ge> 200\<close> (year
  2100 or later). In particular, with the current year 2105 (\<open>tm_year = 205\<close>) and the
  alarm year register holding BCD 07, the alarm's year is 2107 (\<open>tm_year = 207\<close>).
\<close>

theorem read_alarm_live_century:
  assumes "set (take 4 (script s)) \<subseteq> {0}"
  shows "fst (max31335_read_alarm st alrm s) = 0 \<and>
         tm_year (time (fst (snd (max31335_read_alarm st alrm s))))
           = sint (bcd2bin (regs s MAX31335_ALM1_YEAR) + 100)
             + (if tm_year (fst (snd (max31335_read_time st s))) \<ge> 200 then 100 else 0) \<and>
         (tm_year (fst (snd (max31335_read_time st s))) + 1900 = 2105 \<and>
          regs s MAX31335_ALM1_YEAR = 0x07 \<longrightarrow>
            tm_year (time (fst (snd (max31335_read_alarm st alrm s)))) + 1900 = 2107)"
proof -
  let ?s1 = "bus_next (BulkRead MAX31335_ALM1_SEC 6) s"
  let ?s2 = "bus_next (BulkRead MAX31335_SECONDS 7) ?s1"
  let ?s3 = "bus_next (RegRead MAX31335_INT_EN) ?s2"
  have b0: "bus_ret s = 0"
    using bus_ok_now [of 4 s] assms by simp
  have k1: "set (take 3 (script ?s1)) \<subseteq> {0}"
    using bus_ok_later [of 4 s] assms by simp
  have b1: "bus_ret ?s1 = 0"
    using bus_ok_now [of 3 ?s1] k1 by simp
  have k2: "set (take 2 (script ?s2)) \<subseteq> {0}"
    using bus_ok_later [of 3 ?s1] k1 by simp
  have b2: "bus_ret ?s2 = 0"
    using bus_ok_now [of 2 ?s2] k2 by simp
  have k3: "set (take 1 (script ?s3)) \<subseteq> {0}"
    using bus_ok_later [of 2 ?s2] k2 by simp
  have b3: "bus_ret ?s3 = 0"
    using bus_ok_now [of 1 ?s3] k3 by simp
  define now where "now = decode_time (map (regs ?s1) [MAX31335_SECONDS..<MAX31335_SECONDS + 7]) st"
  have rt: "max31335_read_time st ?s1 = (0, now, ?s2)"
    by (simp add: read_time_ok [OF b1] now_def)
  have "tm_year (fst (snd (max31335_read_time st ?s1)))
              = tm_year (fst (snd (max31335_read_time st s)))"
    by (rule read_time_year_regs [OF b0 b1]) (simp add: bus_next_def)
  then have yr: "tm_year now = tm_year (fst (snd (max31335_read_time st s)))"
    by (simp add: rt)
  have r5: "map (regs s) [MAX31335_ALM1_SEC..<MAX31335_ALM1_SEC + 6] ! 5
              = regs s MAX31335_ALM1_YEAR"
    by (simp add: MAX31335_ALM1_SEC_def MAX31335_ALM1_YEAR_def del: upt_Suc)
  have ret: "fst (max31335_read_alarm st alrm s) = 0"
    unfolding max31335_read_alarm_def
    by (simp add: regmap_bulk_read_def regmap_read_def b0 b2 b3 rt Let_def del: upt_Suc)
  have year: "tm_year (time (fst (snd (max31335_read_alarm st alrm s))))
           = sint (bcd2bin (regs s MAX31335_ALM1_YEAR) + 100)
             + (if tm_year (fst (snd (max31335_read_time st s))) \<ge> 200 then 100 else 0)"
    unfolding max31335_read_alarm_def
    using r5 yr
    by (simp add: regmap_bulk_read_def regmap_read_def b0 b2 b3 rt Let_def del: upt_Suc)
  have "sint (bcd2bin 0x07 + 100) = 107" by (simp add: bcd2bin_def)
  with ret year show ?thesis by simp
qed

theorem read_alarm_live_century_witness:
  "set (take 4 (script \<lparr>regs = (\<lambda>a. 0)(0x0F := 0x81, 0x10 := 0x05, 0x16 := 0x07),
                        script = [], trace = []\<rparr>)) \<subseteq> {0} \<and>
   tm_year (fst (snd (max31335_read_time
     \<lparr>tm_sec = 0, tm_min = 0, tm_hour = 0, tm_mday = 0, tm_mon = 0, tm_year = 0,
      tm_wday = 0, tm_yday = 0, tm_isdst = 0\<rparr>
     \<lparr>regs = (\<lambda>a. 0)(0x0F := 0x81, 0x10 := 0x05, 0x16 := 0x07),
      script = [], trace = []\<rparr>))) + 1900 = 2105 \<and>
   tm_year (time (fst (snd (max31335_read_alarm
     \<lparr>tm_sec = 0, tm_min = 0, tm_hour = 0, tm_mday = 0, tm_mon = 0, tm_year = 0,
      tm_wday = 0, tm_yday = 0, tm_isdst = 0\<rparr>
     \<lparr>enabled = 0, pending = 0,
      time = \<lparr>tm_sec = 0, tm_min = 0, tm_hour = 0, tm_mday = 0, tm_mon = 0, tm_year = 0,
              tm_wday = 0, tm_yday = 0, tm_isdst = 0\<rparr>\<rparr>
     \<lparr>regs = (\<lambda>a. 0)(0x0F := 0x81, 0x10 := 0x05, 0x16 := 0x07),
      script = [], trace = []\<rparr>)))) + 1900 = 2107"
proof -
  let ?z = "\<lparr>tm_sec = 0, tm_min = 0, tm_hour = 0, tm_mday = 0, tm_mon = 0, tm_year = 0,
             tm_wday = 0, tm_yday = 0, tm_isdst = 0\<rparr>"
  let ?s = "\<lparr>regs = (\<lambda>a. 0)(0x0F := 0x81, 0x10 := 0x05, 0x16 := 0x07),
             script = [], trace = []\<rparr>"
  have h1: "set (take 4 (script ?s)) \<subseteq> {0}" by simp
  have c: "FIELD_GET MAX31335_MONTH_CENTURY (0x81 :: u8) \<noteq> 0"
    by (simp add: FIELD_GET_def bf_shf_def MAX31335_MONTH_CENTURY_def BIT_def ctz.simps)
  have d: "map (regs ?s) [MAX31335_SECONDS..<MAX31335_SECONDS + 7] = [0, 0, 0, 0, 0, 0x81, 0x05]"
    by (simp add: MAX31335_SECONDS_def upt_rec)
  have b: "bus_ret ?s = 0" by (simp add: bus_ret_def)
  have "fst (snd (max31335_read_time ?z ?s)) = decode_time [0, 0, 0, 0, 0, 0x81, 0x05] ?z"
    by (simp only: read_time_ok [OF b] d fst_conv snd_conv)
  then have h2: "tm_year (fst (snd (max31335_read_time ?z ?s))) + 1900 = 2105"
    by (simp add: decode_time_def c bcd2bin_def)
  have h3: "regs ?s MAX31335_ALM1_YEAR = 0x07" by (simp add: MAX31335_ALM1_YEAR_def)
  from read_alarm_live_century [OF h1, of ?z "\<lparr>enabled = 0, pending = 0, time = ?z\<rparr>"] h1 h2 h3
  show ?thesis by simp
qed

section \<open>Verification: the volatile-register predicate\<close>

lemma volatile_reg_always_true: "max31335_volatile_reg reg = Some True"
  by (simp add: max31335_volatile_reg_def MAX31335_TEMP_DATA_LSB_def)

text \<open>
  C3. The claim wants the predicate true exactly on the time-keeping range, the
  interrupt-status register and the two temperature-data registers. The code answers
  true for the trickle-charger register \<open>0x1D\<close>, which is none of them (and, by
  \<open>volatile_reg_always_true\<close>, for every other address too): the third test is true
  whatever the address.
\<close>

theorem volatile_reg_trickle_reg:
  "max31335_volatile_reg MAX31335_TRICKLE_REG = Some True \<and>
   \<not> volatile_reg_spec MAX31335_TRICKLE_REG \<and>
   MAX31335_TRICKLE_REG \<le> 0x5F"
  by (simp add: volatile_reg_always_true volatile_reg_spec_def MAX31335_TRICKLE_REG_def
      MAX31335_SECONDS_def MAX31335_TIME_SIZE_def MAX31335_STATUS1_def
      MAX31335_TEMP_DATA_MSB_def MAX31335_TEMP_DATA_LSB_def)

text \<open>
  The second test of the code compares the address with the mask \<open>BIT(0)\<close>, so on its
  own it would select the interrupt-enable register \<open>0x01\<close>, not the status register.
\<close>

lemma volatile_reg_second_test:
  "unat (MAX31335_INT_EN1_A1IE :: u32) = MAX31335_INT_EN \<and>
   unat (MAX31335_INT_EN1_A1IE :: u32) \<noteq> MAX31335_STATUS1"
  by (simp add: MAX31335_INT_EN1_A1IE_def BIT_def MAX31335_INT_EN_def MAX31335_STATUS1_def)

section \<open>Verification: setting the alarm\<close>

lemma field_prep_a1ie: "FIELD_PREP MAX31335_INT_EN1_A1IE (x :: 'a::len word) = x AND 1"
  by (simp add: FIELD_PREP_def MAX31335_INT_EN1_A1IE_def BIT_def bf_shf_def ctz.simps)

lemma set_alarm_never_touches_status:
  "regs (snd (max31335_set_alarm alrm s)) MAX31335_STATUS1 = regs s MAX31335_STATUS1"
  by (simp add: max31335_set_alarm_def regmap_bulk_write_def regmap_update_bits_def
      bus_next_def Let_def MAX31335_STATUS1_def MAX31335_ALM1_SEC_def MAX31335_INT_EN_def)

text \<open>
  C2. The claim wants both the enable-bit update and the clear of the pending flag
  applied. On a working bus, with the pending flag \<open>A1F\<close> set in the status register,
  \<open>max31335_set_alarm\<close> returns 0 after two transactions, the bulk write of the six
  alarm registers and the update of the enable bit; the status register still holds
  \<open>A1F\<close> and no transaction addressed it.
\<close>

theorem set_alarm_skips_pending_clear:
  "fst (max31335_set_alarm
     \<lparr>enabled = 1, pending = 0,
      time = \<lparr>tm_sec = 0, tm_min = 30, tm_hour = 7, tm_mday = 15, tm_mon = 5,
              tm_year = 123, tm_wday = 0, tm_yday = 0, tm_isdst = 0\<rparr>\<rparr>
     \<lparr>regs = (\<lambda>a. 0)(0 := 0x01), script = [], trace = []\<rparr>) = 0 \<and>
   trace (snd (max31335_set_alarm
     \<lparr>enabled = 1, pending = 0,
      time = \<lparr>tm_sec = 0, tm_min = 30, tm_hour = 7, tm_mday = 15, tm_mon = 5,
              tm_year = 123, tm_wday = 0, tm_yday = 0, tm_isdst = 0\<rparr>\<rparr>
     \<lparr>regs = (\<lambda>a. 0)(0 := 0x01), script = [], trace = []\<rparr>))
     = [BulkWrite 0x11 [0x00, 0x30, 0x07, 0x15, 0x06, 0x23], UpdateBits 0x01 1 1] \<and>
   regs (snd (max31335_set_alarm
     \<lparr>enabled = 1, pending = 0,
      time = \<lparr>tm_sec = 0, tm_min = 30, tm_hour = 7, tm_mday = 15, tm_mon = 5,
              tm_year = 123, tm_wday = 0, tm_yday = 0, tm_isdst = 0\<rparr>\<rparr>
     \<lparr>regs = (\<lambda>a. 0)(0 := 0x01), script = [], trace = []\<rparr>)) MAX31335_INT_EN = 0x01 \<and>
   regs (snd (max31335_set_alarm
     \<lparr>enabled = 1, pending = 0,
      time = \<lparr>tm_sec = 0, tm_min = 30, tm_hour = 7, tm_mday = 15, tm_mon = 5,
              tm_year = 123, tm_wday = 0, tm_yday = 0, tm_isdst = 0\<rparr>\<rparr>
     \<lparr>regs = (\<lambda>a. 0)(0 := 0x01), script = [], trace = []\<rparr>)) MAX31335_STATUS1 = 0x01 \<and>
   (0x01 :: u8) AND MAX31335_STATUS1_A1F \<noteq> 0"
proof -
  have e: "[bin2bcd 0, bin2bcd 30, bin2bcd 7, bin2bcd 15, bin2bcd 6, bin2bcd 23]
             = [0x00, 0x30, 0x07, 0x15, 0x06, 0x23]"
    by (simp add: bin2bcd_def)
  show ?thesis
    by (simp add: max31335_set_alarm_def regmap_bulk_write_def regmap_update_bits_def
        bus_next_def bus_ret_def Let_def e MAX31335_ALM1_SEC_def MAX31335_INT_EN_def
        MAX31335_STATUS1_def field_prep_a1ie)
      (simp add: MAX31335_INT_EN1_A1IE_def MAX31335_STATUS1_A1F_def BIT_def)
qed

section \<open>Verification: the aging offset\<close>

lemma ucast_word_of_int_u32_u8: "(ucast (word_of_int v :: u32) :: u8) = word_of_int v"
  by (rule bit_eqI) (auto simp add: bit_simps)

lemma uint_ucast_u8_u32: "uint (ucast (b :: u8) :: u32) = uint b"
  by (rule bit_eqI) (auto simp add: bit_simps dest: bit_imp_le_length)

lemma uint_minus_1_u8: "uint (- 1 :: u8) = 255"
  by (simp add: uint_word_ariths)

lemma read_offset_ok:
  assumes "bus_ret s = 0"
  shows "max31335_read_offset off s
           = (0, uint (regs s MAX31335_AGING_OFFSET),
              bus_next (RegRead MAX31335_AGING_OFFSET) s)"
  using assms by (simp add: max31335_read_offset_def regmap_read_def uint_ucast_u8_u32)

lemma set_offset_ok:
  assumes "bus_ret s = 0"
  shows "max31335_set_offset v s
           = (0, (bus_next (RegWrite MAX31335_AGING_OFFSET (word_of_int v)) s)
                   \<lparr>regs := (regs s)(MAX31335_AGING_OFFSET := word_of_int v)\<rparr>)"
  using assms
  by (simp add: max31335_set_offset_def regmap_write_def ucast_word_of_int_u32_u8)

lemma set_then_read_offset:
  assumes "bus_ret s = 0" and "bus_ret (snd (max31335_set_offset v s)) = 0"
  shows "fst (snd (max31335_read_offset off (snd (max31335_set_offset v s)))) = v mod 256"
proof -
  have "fst (snd (max31335_read_offset off (snd (max31335_set_offset v s))))
          = uint (regs (snd (max31335_set_offset v s)) MAX31335_AGING_OFFSET)"
    using assms(2) by (simp add: read_offset_ok)
  also have "\<dots> = uint (word_of_int v :: u8)"
    using assms(1) by (simp add: set_offset_ok)
  also have "\<dots> = v mod 256"
    by (simp add: uint_word_of_int)
  finally show ?thesis .
qed

text \<open>
  C6, the claim as stated fails: a register byte \<open>0xFF\<close> is returned as 255, not as
  the signed value \<open>-1\<close>, and writing \<open>-1\<close> then reading gives 255.
\<close>

theorem read_offset_signed_counterexample:
  "sint (0xFF :: u8) = - 1 \<and>
   fst (snd (max31335_read_offset 0
     (idle_dev\<lparr>regs := zero_regs(MAX31335_AGING_OFFSET := 0xFF)\<rparr>))) = 255 \<and>
   fst (snd (max31335_read_offset 0 (snd (max31335_set_offset (- 1) idle_dev)))) = 255"
proof -
  let ?s = "idle_dev\<lparr>regs := zero_regs(MAX31335_AGING_OFFSET := 0xFF)\<rparr>"
  have b: "bus_ret ?s = 0"
    by (simp add: bus_ret_def idle_dev_def)
  have b': "bus_ret idle_dev = 0"
    by (simp add: bus_ret_def idle_dev_def)
  have b'': "bus_ret (snd (max31335_set_offset (- 1) idle_dev)) = 0"
    by (simp add: set_offset_ok [OF b'] bus_next_def) (simp add: bus_ret_def idle_dev_def)
  have r1: "max31335_read_offset 0 ?s
              = (0, uint (regs ?s MAX31335_AGING_OFFSET),
                 bus_next (RegRead MAX31335_AGING_OFFSET) ?s)"
    by (rule read_offset_ok [OF b])
  have r2: "fst (snd (max31335_read_offset 0 (snd (max31335_set_offset (- 1) idle_dev))))
              = (- 1) mod 256"
    by (rule set_then_read_offset [OF b' b''])
  show ?thesis
    unfolding r1 r2 by simp
qed

text \<open>
  C6, amended. \<open>max31335_read_offset\<close> returns the aging-offset register byte as an
  unsigned value, between 0 and 255; \<open>max31335_set_offset\<close> accepts every value and
  stores its low 8 bits in that register; so writing \<open>v\<close> and reading back returns
  \<open>v mod 256\<close>, which is \<open>v\<close> itself for \<open>0 \<le> v \<le> 255\<close> and \<open>v + 256\<close> for
  \<open>-128 \<le> v < 0\<close>.
\<close>

theorem offset_unsigned_roundtrip:
  "(bus_ret s = 0 \<longrightarrow>
      fst (max31335_read_offset off s) = 0 \<and>
      fst (snd (max31335_read_offset off s)) = uint (regs s MAX31335_AGING_OFFSET) \<and>
      0 \<le> fst (snd (max31335_read_offset off s)) \<and>
      fst (snd (max31335_read_offset off s)) \<le> 255) \<and>
   (bus_ret s = 0 \<longrightarrow>
      fst (max31335_set_offset v s) = 0 \<and>
      regs (snd (max31335_set_offset v s)) MAX31335_AGING_OFFSET = word_of_int v) \<and>
   (bus_ret s = 0 \<and> bus_ret (snd (max31335_set_offset v s)) = 0 \<longrightarrow>
      fst (snd (max31335_read_offset off (snd (max31335_set_offset v s)))) = v mod 256)"
proof -
  have u: "uint (w :: u8) \<le> 255" for w
    using uint_bounded [of w] by simp
  have a: "bus_ret s = 0 \<longrightarrow>
      fst (max31335_read_offset off s) = 0 \<and>
      fst (snd (max31335_read_offset off s)) = uint (regs s MAX31335_AGING_OFFSET) \<and>
      0 \<le> fst (snd (max31335_read_offset off s)) \<and>
      fst (snd (max31335_read_offset off s)) \<le> 255"
    by (simp add: read_offset_ok u)
  have b: "bus_ret s = 0 \<longrightarrow>
      fst (max31335_set_offset v s) = 0 \<and>
      regs (snd (max31335_set_offset v s)) MAX31335_AGING_OFFSET = word_of_int v"
    by (simp add: set_offset_ok)
  have c: "bus_ret s = 0 \<and> bus_ret (snd (max31335_set_offset v s)) = 0 \<longrightarrow>
      fst (snd (max31335_read_offset off (snd (max31335_set_offset v s)))) = v mod 256"
    using set_then_read_offset by blast
  from a b c show ?thesis by blast
qed

theorem offset_unsigned_roundtrip_witness:
  "bus_ret \<lparr>regs = (\<lambda>a. 0x80), script = [], trace = []\<rparr> = 0 \<and>
   bus_ret (snd (max31335_set_offset (- 3)
     \<lparr>regs = (\<lambda>a. 0x80), script = [], trace = []\<rparr>)) = 0 \<and>
   fst (snd (max31335_read_offset 0 \<lparr>regs = (\<lambda>a. 0x80), script = [], trace = []\<rparr>)) = 128 \<and>
   fst (snd (max31335_read_offset 0 (snd (max31335_set_offset (- 3)
     \<lparr>regs = (\<lambda>a. 0x80), script = [], trace = []\<rparr>)))) = 253"
proof -
  let ?s = "\<lparr>regs = (\<lambda>a. 0x80), script = [], trace = []\<rparr>"
  have h1: "bus_ret ?s = 0" by (simp add: bus_ret_def)
  have h2: "bus_ret (snd (max31335_set_offset (- 3) ?s)) = 0"
    by (simp add: set_offset_ok [OF h1] bus_next_def bus_ret_def)
  from offset_unsigned_roundtrip [of ?s 0 "- 3"] h1 h2 show ?thesis
    by simp
qed

section \<open>Verification: the hour field\<close>

lemma hour_12h_pm_all:
  "\<forall>h \<in> set [1..11].
     max31335_get_hour (MAX31335_HRS_F_12_24 OR MAX31335_HRS_F_AM_PM OR bin2bcd (word_of_int h))
       = h + 12"
  by code_simp

lemma hour_24h_all:
  "\<forall>h \<in> set [0..23].
     FIELD_GET MAX31335_HRS_F_12_24 (bin2bcd (word_of_int h)) = 0 \<and>
     max31335_get_hour (bin2bcd (word_of_int h)) = h"
  by code_simp

lemma hour_12h_midnight: "max31335_get_hour (MAX31335_HRS_F_12_24 OR bin2bcd 12) = 0"
  by code_simp

lemma hour_12h_midnight_byte: "(MAX31335_HRS_F_12_24 OR bin2bcd 12 :: u8) = 0x52"
  by code_simp

lemma encode_time_hour: "encode_time tm ! 2 = bin2bcd (word_of_int (tm_hour tm))"
  by (simp add: encode_time_def Let_def)

lemma set_time_hours_reg:
  assumes "bus_ret s = 0"
  shows "regs (snd (max31335_set_time tm s)) MAX31335_HOURS = bin2bcd (word_of_int (tm_hour tm))"
  using assms
  by (simp add: set_time_ok MAX31335_HOURS_def MAX31335_SECONDS_def encode_time_hour)

text \<open>
  C4, the claim as stated fails at its first part: there is no 12-hour encoder.
  On a chip whose hours register is in 12-hour mode (it holds \<open>0x52\<close>, BCD 12 with the
  12-hour bit), setting a time with hour 0 writes \<open>0x00\<close> to the hours register, not
  BCD 12 with the 12-hour bit.
\<close>

theorem set_time_hour_12h_counterexample:
  "regs (idle_dev\<lparr>regs := zero_regs(MAX31335_HOURS := 0x52)\<rparr>) MAX31335_HOURS
     = (MAX31335_HRS_F_12_24 OR bin2bcd 12) \<and>
   regs (snd (max31335_set_time
     \<lparr>tm_sec = 0, tm_min = 0, tm_hour = 0, tm_mday = 1, tm_mon = 0, tm_year = 100,
      tm_wday = 6, tm_yday = 0, tm_isdst = 0\<rparr>
     (idle_dev\<lparr>regs := zero_regs(MAX31335_HOURS := 0x52)\<rparr>))) MAX31335_HOURS = 0x00 \<and>
   (0x00 :: u8) \<noteq> (MAX31335_HRS_F_12_24 OR bin2bcd 12)"
proof -
  let ?s = "idle_dev\<lparr>regs := zero_regs(MAX31335_HOURS := 0x52)\<rparr>"
  let ?tm = "\<lparr>tm_sec = 0, tm_min = 0, tm_hour = 0, tm_mday = 1, tm_mon = 0, tm_year = 100,
      tm_wday = 6, tm_yday = 0, tm_isdst = 0\<rparr>"
  have b: "bus_ret ?s = 0"
    by (simp add: bus_ret_def idle_dev_def)
  have w: "regs (snd (max31335_set_time ?tm ?s)) MAX31335_HOURS
             = bin2bcd (word_of_int (tm_hour ?tm))"
    by (rule set_time_hours_reg [OF b])
  have z: "bin2bcd (word_of_int (tm_hour ?tm)) = 0x00"
    by (simp add: bin2bcd_def)
  show ?thesis
    unfolding w z by (simp add: hour_12h_midnight_byte)
qed

text \<open>
  C4, amended. The decoder is polymorphic on the 12/24-mode bit: in 12-hour mode BCD 12
  with the AM/PM bit clear decodes to hour 0, and BCD 1 to 11 with the PM bit set decode
  to hours 13 to 23. The encoder is not: \<open>max31335_set_time\<close> always writes the hour
  as 24-hour BCD with the mode bit clear (hour 0 becomes \<open>0x00\<close>), and every hour from 0
  to 23 written that way decodes to itself.
\<close>

theorem hour_codec:
  "max31335_get_hour (MAX31335_HRS_F_12_24 OR bin2bcd 12) = 0 \<and>
   (\<forall>h \<in> {1..11}.
      max31335_get_hour
        (MAX31335_HRS_F_12_24 OR MAX31335_HRS_F_AM_PM OR bin2bcd (word_of_int h)) = h + 12) \<and>
   (bus_ret s = 0 \<longrightarrow>
      regs (snd (max31335_set_time tm s)) MAX31335_HOURS
        = bin2bcd (word_of_int (tm_hour tm))) \<and>
   bin2bcd (word_of_int 0) = 0x00 \<and>
   (\<forall>h \<in> {0..23}.
      FIELD_GET MAX31335_HRS_F_12_24 (bin2bcd (word_of_int h)) = 0 \<and>
      max31335_get_hour (bin2bcd (word_of_int h)) = h)"
proof -
  have a: "\<forall>h \<in> {1..11}.
      max31335_get_hour
        (MAX31335_HRS_F_12_24 OR MAX31335_HRS_F_AM_PM OR bin2bcd (word_of_int h)) = h + 12"
    using hour_12h_pm_all by (simp only: set_upto)
  have b: "\<forall>h \<in> {0..23}.
      FIELD_GET MAX31335_HRS_F_12_24 (bin2bcd (word_of_int h)) = 0 \<and>
      max31335_get_hour (bin2bcd (word_of_int h)) = h"
    using hour_24h_all by (simp only: set_upto)
  have c: "bin2bcd (word_of_int 0) = 0x00"
    by (simp add: bin2bcd_def)
  from a b c hour_12h_midnight set_time_hours_reg show ?thesis
    by blast
qed

theorem hour_codec_witness:
  "(11 :: int) \<in> {1..11} \<and>
   max31335_get_hour
     (MAX31335_HRS_F_12_24 OR MAX31335_HRS_F_AM_PM OR bin2bcd (word_of_int 11)) = 23 \<and>
   (23 :: int) \<in> {0..23} \<and>
   max31335_get_hour (bin2bcd (word_of_int 23)) = 23 \<and>
   bus_ret idle_dev = 0 \<and>
   regs (snd (max31335_set_time
     \<lparr>tm_sec = 0, tm_min = 0, tm_hour = 23, tm_mday = 1, tm_mon = 0, tm_year = 100,
      tm_wday = 6, tm_yday = 0, tm_isdst = 0\<rparr> idle_dev)) MAX31335_HOURS = 0x23"
proof -
  let ?tm = "\<lparr>tm_sec = 0, tm_min = 0, tm_hour = 23, tm_mday = 1, tm_mon = 0, tm_year = 100,
      tm_wday = 6, tm_yday = 0, tm_isdst = 0\<rparr>"
  have h1: "(11 :: int) \<in> {1..11}" by simp
  have h2: "(23 :: int) \<in> {0..23}" by simp
  have h3: "bus_ret idle_dev = 0" by (simp add: bus_ret_def idle_dev_def)
  have e: "bin2bcd 23 = 0x23" by (simp add: bin2bcd_def)
  note t = hour_codec [of idle_dev ?tm]
  from t h1 have a: "max31335_get_hour
     (MAX31335_HRS_F_12_24 OR MAX31335_HRS_F_AM_PM OR bin2bcd (word_of_int 11)) = 11 + 12"
    by blast
  from t h2 have b: "max31335_get_hour (bin2bcd (word_of_int 23)) = 23"
    by blast
  from t h3 have c: "regs (snd (max31335_set_time ?tm idle_dev)) MAX31335_HOURS
                       = bin2bcd (word_of_int (tm_hour ?tm))"
    by blast
  from a b c h3 e show ?thesis by simp
qed

section \<open>Verification: the declared range\<close>

lemma begin_2000:
  "rtc_tm_to_time64 \<lparr>tm_sec = 0, tm_min = 0, tm_hour = 0, tm_mday = 1, tm_mon = 0,
      tm_year = 100, tm_wday = 6, tm_yday = 0, tm_isdst = 0\<rparr> = RTC_TIMESTAMP_BEGIN_2000"
  by (simp add: rtc_tm_to_time64_def mktime64_def RTC_TIMESTAMP_BEGIN_2000_def)

lemma end_2199:
  "rtc_tm_to_time64 \<lparr>tm_sec = 59, tm_min = 59, tm_hour = 23, tm_mday = 31, tm_mon = 11,
      tm_year = 299, tm_wday = 2, tm_yday = 0, tm_isdst = 0\<rparr> = RTC_TIMESTAMP_END_2199"
  by (simp add: rtc_tm_to_time64_def mktime64_def RTC_TIMESTAMP_END_2199_def)

text \<open>
  The day count of \<open>mktime64\<close> without the day of the month, as a function of the
  shifted year and month. It grows with the date: a year adds at least 365, and the
  month term spans less than that.
\<close>

lemma days_from_1999_11:
  fixes y m :: int
  assumes "1999 \<le> y" and "11 \<le> m"
  shows "10956 \<le> y div 4 - y div 100 + y div 400 + 367 * m div 12 + y * 365 - 719499"
proof (cases "y = 1999")
  case True
  have "336 \<le> 367 * m div 12" using assms(2) by linarith
  with True show ?thesis by simp
next
  case False
  with assms(1) have "2000 \<le> y" by simp
  with assms(2) show ?thesis by linarith
qed

lemma days_from_2000:
  fixes y m :: int
  assumes "2000 \<le> y" and "1 \<le> m"
  shows "10956 \<le> y div 4 - y div 100 + y div 400 + 367 * m div 12 + y * 365 - 719499"
  using assms by linarith

lemma days_upto_2199_10:
  fixes y m :: int
  assumes "y \<le> 2199" and "m \<le> 10"
  shows "y div 4 - y div 100 + y div 400 + 367 * m div 12 + y * 365 - 719499 \<le> 83974"
proof (cases "y = 2199")
  case True
  have "367 * m div 12 \<le> 305" using assms(2) by linarith
  with True show ?thesis by simp
next
  case False
  with assms(1) have "y \<le> 2198" by simp
  with assms(2) show ?thesis by linarith
qed

lemma days_upto_2198:
  fixes y m :: int
  assumes "y \<le> 2198" and "m \<le> 12"
  shows "y div 4 - y div 100 + y div 400 + 367 * m div 12 + y * 365 - 719499 \<le> 83974"
  using assms by linarith

lemma seconds_bounds:
  fixes D d h mn sec :: int
  assumes "10956 \<le> D" "D \<le> 83974" "1 \<le> d" "d \<le> 31"
    "0 \<le> h" "h \<le> 23" "0 \<le> mn" "mn \<le> 59" "0 \<le> sec" "sec \<le> 59"
  shows "946684800 \<le> (((D + d) * 24 + h) * 60 + mn) * 60 + sec \<and>
         (((D + d) * 24 + h) * 60 + mn) * 60 + sec \<le> 7258118399"
  using assms by simp

lemma mktime64_bounds:
  assumes "2000 \<le> y" "y \<le> 2199" "1 \<le> m" "m \<le> 12" "1 \<le> d" "d \<le> 31"
    "0 \<le> h" "h \<le> 23" "0 \<le> mn" "mn \<le> 59" "0 \<le> sec" "sec \<le> 59"
  shows "946684800 \<le> mktime64 y m d h mn sec \<and> mktime64 y m d h mn sec \<le> 7258118399"
proof (cases "m \<le> 2")
  case True
  define D where "D = (y - 1) div 4 - (y - 1) div 100 + (y - 1) div 400
              + 367 * (m + 10) div 12 + (y - 1) * 365 - 719499"
  have lo: "10956 \<le> D"
    unfolding D_def using assms(1,3) by (intro days_from_1999_11) simp_all
  have hi: "D \<le> 83974"
    unfolding D_def using assms(2) True by (intro days_upto_2198) simp_all
  have e: "mktime64 y m d h mn sec = (((D + d) * 24 + h) * 60 + mn) * 60 + sec"
    using True by (simp add: mktime64_def Let_def D_def algebra_simps)
  show ?thesis
    unfolding e by (rule seconds_bounds [OF lo hi assms(5-12)])
next
  case False
  define D where "D = y div 4 - y div 100 + y div 400
              + 367 * (m - 2) div 12 + y * 365 - 719499"
  have lo: "10956 \<le> D"
    unfolding D_def using assms(1) False by (intro days_from_2000) simp_all
  have hi: "D \<le> 83974"
    unfolding D_def using assms(2,4) by (intro days_upto_2199_10) simp_all
  have e: "mktime64 y m d h mn sec = (((D + d) * 24 + h) * 60 + mn) * 60 + sec"
    using False by (simp add: mktime64_def Let_def D_def algebra_simps)
  show ?thesis
    unfolding e by (rule seconds_bounds [OF lo hi assms(5-12)])
qed

lemma in_range_timestamp:
  assumes "rtc_time_in_range tm"
  shows "RTC_TIMESTAMP_BEGIN_2000 \<le> rtc_tm_to_time64 tm \<and>
         rtc_tm_to_time64 tm \<le> RTC_TIMESTAMP_END_2199"
  unfolding rtc_tm_to_time64_def RTC_TIMESTAMP_BEGIN_2000_def RTC_TIMESTAMP_END_2199_def
  using assms by (intro mktime64_bounds) (simp_all add: rtc_time_in_range_def)

lemma probe_range:
  assumes "max31335_probe env s = (ret, Some rtc, s')"
  shows "range_min rtc = RTC_TIMESTAMP_BEGIN_2000 \<and> range_max rtc = RTC_TIMESTAMP_END_2199"
  using assms
  by (auto simp add: max31335_probe_def Let_def rtc_allocated_def
      split: if_splits prod.splits sum.splits)

lemma bus_ret_idle_dev: "bus_ret idle_dev = 0"
  by (simp add: bus_ret_def idle_dev_def)

lemma read_time_producible:
  assumes "rtc_time_in_range tm"
  shows "\<exists>d. fst (max31335_read_time tm0 d) = 0 \<and>
             fst (snd (max31335_read_time tm0 d)) = with_civil_fields tm tm0"
proof -
  let ?d = "snd (max31335_set_time tm idle_dev)"
  have b: "bus_ret ?d = 0"
    by (simp add: set_time_ok [OF bus_ret_idle_dev] bus_next_def)
      (simp add: bus_ret_def idle_dev_def)
  have "max31335_read_time tm0 ?d =
          (0, decode_time (encode_time tm) tm0, bus_next (BulkRead MAX31335_SECONDS 7) ?d)"
    using read_time_ok [OF b] regs_after_set_time [OF bus_ret_idle_dev] by simp
  then have "fst (max31335_read_time tm0 ?d) = 0 \<and>
             fst (snd (max31335_read_time tm0 ?d)) = with_civil_fields tm tm0"
    by (simp add: decode_encode_time [OF assms])
  then show ?thesis ..
qed

text \<open>
  C9. Whenever \<open>max31335_probe\<close> gets as far as allocating the RTC device, the range
  it declares on it runs from the timestamp of 2000-01-01 00:00:00 to the timestamp of
  2199-12-31 23:59:59. Every time of that range (every \<open>tm\<close> with
  \<open>rtc_time_in_range\<close>) has its timestamp inside the declared range, is accepted by
  \<open>max31335_set_time\<close> (which returns 0 whenever the bus write succeeds: it rejects
  nothing itself) and is produced by \<open>max31335_read_time\<close> from some register
  contents.
\<close>

theorem probe_declares_range_2000_2199:
  assumes "max31335_probe env s = (ret, Some rtc, s')"
  shows "range_min rtc =
           rtc_tm_to_time64 \<lparr>tm_sec = 0, tm_min = 0, tm_hour = 0, tm_mday = 1, tm_mon = 0,
             tm_year = 100, tm_wday = 6, tm_yday = 0, tm_isdst = 0\<rparr> \<and>
         range_max rtc =
           rtc_tm_to_time64 \<lparr>tm_sec = 59, tm_min = 59, tm_hour = 23, tm_mday = 31,
             tm_mon = 11, tm_year = 299, tm_wday = 2, tm_yday = 0, tm_isdst = 0\<rparr> \<and>
         (\<forall>tm. rtc_time_in_range tm \<longrightarrow>
            range_min rtc \<le> rtc_tm_to_time64 tm \<and>
            rtc_tm_to_time64 tm \<le> range_max rtc \<and>
            (\<forall>d. bus_ret d = 0 \<longrightarrow> fst (max31335_set_time tm d) = 0) \<and>
            (\<forall>tm0. \<exists>d. fst (max31335_read_time tm0 d) = 0 \<and>
                 fst (snd (max31335_read_time tm0 d)) = with_civil_fields tm tm0))"
proof -
  note r = probe_range [OF assms]
  have a: "range_min rtc =
           rtc_tm_to_time64 \<lparr>tm_sec = 0, tm_min = 0, tm_hour = 0, tm_mday = 1, tm_mon = 0,
             tm_year = 100, tm_wday = 6, tm_yday = 0, tm_isdst = 0\<rparr>"
    using r by (simp only: begin_2000)
  have b: "range_max rtc =
           rtc_tm_to_time64 \<lparr>tm_sec = 59, tm_min = 59, tm_hour = 23, tm_mday = 31,
             tm_mon = 11, tm_year = 299, tm_wday = 2, tm_yday = 0, tm_isdst = 0\<rparr>"
    using r by (simp only: end_2199)
  have c: "range_min rtc \<le> rtc_tm_to_time64 tm \<and> rtc_tm_to_time64 tm \<le> range_max rtc"
    if "rtc_time_in_range tm" for tm
    using in_range_timestamp [OF that] r by simp
  have d: "\<forall>d. bus_ret d = 0 \<longrightarrow> fst (max31335_set_time tm d) = 0" for tm
    by (simp add: set_time_ok)
  from a b c d read_time_producible show ?thesis
    by blast
qed

theorem probe_declares_range_2000_2199_witness:
  "max31335_probe
     \<lparr>kzalloc_ok = True, regmap_init_err = 0, rtc_allocate_err = 0, rtc_register_ret = 0,
      clk_hw_register_ret = 0, clk_add_provider_ret = 0, clk_prepare_enable_ret = 0,
      client_irq = 0, request_irq_ret = 0,
      props = \<lparr>trickle_resistor_ohms = None, trickle_diode_enable = False,
               clock_cells = False\<rparr>\<rparr> idle_dev
     = (0, Some \<lparr>range_min = 946684800, range_max = 7258118399, feature_alarm = False,
                 has_ops = True\<rparr>,
        idle_dev\<lparr>trace := [RegRead 0]\<rparr>) \<and>
   rtc_time_in_range
     \<lparr>tm_sec = 56, tm_min = 34, tm_hour = 12, tm_mday = 15, tm_mon = 5, tm_year = 250,
      tm_wday = 1, tm_yday = 0, tm_isdst = 0\<rparr> \<and>
   946684800 \<le> rtc_tm_to_time64
     \<lparr>tm_sec = 56, tm_min = 34, tm_hour = 12, tm_mday = 15, tm_mon = 5, tm_year = 250,
      tm_wday = 1, tm_yday = 0, tm_isdst = 0\<rparr> \<and>
   rtc_tm_to_time64
     \<lparr>tm_sec = 56, tm_min = 34, tm_hour = 12, tm_mday = 15, tm_mon = 5, tm_year = 250,
      tm_wday = 1, tm_yday = 0, tm_isdst = 0\<rparr> \<le> 7258118399 \<and>
   bus_ret idle_dev = 0 \<and>
   fst (max31335_set_time
     \<lparr>tm_sec = 56, tm_min = 34, tm_hour = 12, tm_mday = 15, tm_mon = 5, tm_year = 250,
      tm_wday = 1, tm_yday = 0, tm_isdst = 0\<rparr> idle_dev) = 0"
proof -
  let ?env = "\<lparr>kzalloc_ok = True, regmap_init_err = 0, rtc_allocate_err = 0,
      rtc_register_ret = 0, clk_hw_register_ret = 0, clk_add_provider_ret = 0,
      clk_prepare_enable_ret = 0, client_irq = 0, request_irq_ret = 0,
      props = \<lparr>trickle_resistor_ohms = None, trickle_diode_enable = False,
               clock_cells = False\<rparr>\<rparr>"
  let ?rtc = "\<lparr>range_min = 946684800, range_max = 7258118399, feature_alarm = False,
                 has_ops = True\<rparr>"
  let ?tm = "\<lparr>tm_sec = 56, tm_min = 34, tm_hour = 12, tm_mday = 15, tm_mon = 5,
      tm_year = 250, tm_wday = 1, tm_yday = 0, tm_isdst = 0\<rparr>"
  have h1: "max31335_probe ?env idle_dev = (0, Some ?rtc, idle_dev\<lparr>trace := [RegRead 0]\<rparr>)"
    by (simp add: max31335_probe_def regmap_read_def bus_ret_idle_dev bus_next_def
        max31335_clkout_register_def max31335_trickle_charger_setup_def rtc_allocated_def
        RTC_TIMESTAMP_BEGIN_2000_def RTC_TIMESTAMP_END_2199_def MAX31335_STATUS1_def Let_def)
      (simp add: idle_dev_def)
  have h2: "rtc_time_in_range ?tm"
    by (simp add: rtc_time_in_range_def)
  note t = probe_declares_range_2000_2199 [OF h1]
  from t h2 have "range_min ?rtc \<le> rtc_tm_to_time64 ?tm \<and>
      rtc_tm_to_time64 ?tm \<le> range_max ?rtc \<and>
      (\<forall>d. bus_ret d = 0 \<longrightarrow> fst (max31335_set_time ?tm d) = 0)"
    by blast
  with h1 h2 bus_ret_idle_dev show ?thesis
    by simp
qed

text \<open>
  The earlier draft of the driver (\<open>rtc-max31335.c\<close>) has no century handling and ends
  its range at \<open>RTC_TIMESTAMP_END_2099\<close>; the range proved here is the one of the
  full driver.
\<close>

end
